theory Spec2Isabelle
  imports Main
begin

section \<open>Strings of UTF-16 code units\<close>

text \<open>
  A JavaScript string is a sequence of UTF-16 code units; a code unit is modelled by its
  number. The tables of the engine only use Basic Latin and the Czech letters of Latin-1
  Supplement and Latin Extended-A, all of them single code units (the source holds them
  precomposed).
\<close>

type_synonym jchar = nat
type_synonym jstring = "jchar list"

text \<open>
  The case mappings of \<open>String.prototype.toLowerCase\<close> and \<open>toUpperCase\<close> on one code unit,
  after the Unicode character database, for U+0000 to U+017F and for the three characters
  above that range whose lower case lies in it (U+1E9E, the Kelvin sign U+212A and the
  Angstrom sign U+212B). A mapping may give several code units (U+00DF gives \<open>SS\<close>).
  Code units outside the range are left as they are: the model takes them as caseless.
\<close>

definition lower_cu :: "jchar \<Rightarrow> jstring" where
  "lower_cu c =
     (if c < 65 then [c]
      else if c \<le> 90 then [c + 32]
      else if c < 192 then [c]
      else if c \<le> 222 then (if c = 215 then [c] else [c + 32])
      else if c < 256 then [c]
      else if c \<le> 303 then (if even c then [c + 1] else [c])
      else if c = 304 then [105, 775]
      else if c = 305 then [c]
      else if c \<le> 311 then (if even c then [c + 1] else [c])
      else if c = 312 then [c]
      else if c \<le> 328 then (if odd c then [c + 1] else [c])
      else if c = 329 then [c]
      else if c \<le> 375 then (if even c then [c + 1] else [c])
      else if c = 376 then [255]
      else if c \<le> 382 then (if odd c then [c + 1] else [c])
      else if c = 7838 then [223]
      else if c = 8490 then [107]
      else if c = 8491 then [229]
      else [c])"

definition upper_cu :: "jchar \<Rightarrow> jstring" where
  "upper_cu c =
     (if c < 97 then [c]
      else if c \<le> 122 then [c - 32]
      else if c < 181 then [c]
      else if c = 181 then [924]
      else if c < 223 then [c]
      else if c = 223 then [83, 83]
      else if c \<le> 254 then (if c = 247 then [c] else [c - 32])
      else if c = 255 then [376]
      else if c \<le> 304 then (if odd c then [c - 1] else [c])
      else if c = 305 then [73]
      else if c \<le> 311 then (if odd c then [c - 1] else [c])
      else if c \<le> 313 then [c]
      else if c \<le> 328 then (if even c then [c - 1] else [c])
      else if c = 329 then [700, 78]
      else if c \<le> 375 then (if odd c then [c - 1] else [c])
      else if c \<le> 377 then [c]
      else if c \<le> 382 then (if even c then [c - 1] else [c])
      else if c = 383 then [83]
      else [c])"

definition toLowerCase :: "jstring \<Rightarrow> jstring" where
  "toLowerCase s = concat (map lower_cu s)"

definition toUpperCase :: "jstring \<Rightarrow> jstring" where
  "toUpperCase s = concat (map upper_cu s)"

text \<open>
  \<open>Canonicalize\<close> of a regular expression with the flags \<open>iu\<close>: the simple case folding
  of the Unicode character database, on the same range.
\<close>

definition canonicalize :: "jchar \<Rightarrow> jchar" where
  "canonicalize c =
     (if c < 65 then c
      else if c \<le> 90 then c + 32
      else if c < 181 then c
      else if c = 181 then 956
      else if c < 192 then c
      else if c \<le> 222 then (if c = 215 then c else c + 32)
      else if c < 256 then c
      else if c \<le> 303 then (if even c then c + 1 else c)
      else if c \<le> 305 then c
      else if c \<le> 311 then (if even c then c + 1 else c)
      else if c = 312 then c
      else if c \<le> 328 then (if odd c then c + 1 else c)
      else if c = 329 then c
      else if c \<le> 375 then (if even c then c + 1 else c)
      else if c = 376 then 255
      else if c \<le> 382 then (if odd c then c + 1 else c)
      else if c = 383 then 115
      else if c = 7838 then 223
      else if c = 8490 then 107
      else if c = 8491 then 229
      else c)"

subsection \<open>Writing the Czech letters in ASCII\<close>

text \<open>
  The tables below are the tables of the source, letter for letter. A letter with a
  diacritic is written as its base letter followed by a mark: \<open>:\<close> for the acute accent
  (\<open>a:\<close> is U+00E1), \<open>^\<close> for the caron (\<open>c^\<close> is U+010D) and \<open>*\<close> for the ring
  (\<open>u*\<close> is U+016F). None of the three marks occurs in the source tables. \<open>cz\<close> reads
  such a text into the string of code units it stands for.
\<close>

definition acute :: "jchar \<Rightarrow> jchar" where
  "acute c =
     (if c = 97 then 225 else if c = 101 then 233 else if c = 105 then 237
      else if c = 111 then 243 else if c = 117 then 250 else if c = 121 then 253
      else if c = 65 then 193 else if c = 69 then 201 else if c = 73 then 205
      else if c = 79 then 211 else if c = 85 then 218 else if c = 89 then 221 else c)"

definition caron :: "jchar \<Rightarrow> jchar" where
  "caron c =
     (if c = 99 then 269 else if c = 100 then 271 else if c = 101 then 283
      else if c = 110 then 328 else if c = 114 then 345 else if c = 115 then 353
      else if c = 116 then 357 else if c = 122 then 382
      else if c = 67 then 268 else if c = 68 then 270 else if c = 69 then 282
      else if c = 78 then 327 else if c = 82 then 344 else if c = 83 then 352
      else if c = 84 then 356 else if c = 90 then 381 else c)"

definition ring :: "jchar \<Rightarrow> jchar" where
  "ring c = (if c = 117 then 367 else if c = 85 then 366 else c)"

fun cz :: "string \<Rightarrow> jstring" where
  "cz [] = []"
| "cz [c] = [of_char c]"
| "cz (c # m # r) =
     (if of_char m = (58::nat) then acute (of_char c) # cz r
      else if of_char m = (94::nat) then caron (of_char c) # cz r
      else if of_char m = (42::nat) then ring (of_char c) # cz r
      else of_char c # cz (m # r))"

section \<open>The tables of the constructor\<close>

text \<open>
  \<open>this.patterns\<close>: each row holds the gender, the pattern (a literal word, or after a
  leading \<open>-\<close> a regular expression for the end of the word) and the templates of the
  forms 2 to 14. The order of the rows is the order in which they are tried.
\<close>

definition patterns :: "string list list" where
  "patterns = [
    [''m'', ''-ky:'', ''ke:ho'', ''ke:mu'', ''ky:/ke:ho'', ''ky:'', ''ke:m'', ''ky:m'', ''ke:/ci:'', ''ky:ch'', ''ky:m'', ''ke:'', ''ke:/ci:'', ''ky:ch'', ''ky:mi''],
    [''m'', ''-ry:'', ''re:ho'', ''re:mu'', ''ry:/re:ho'', ''ry:'', ''re:m'', ''ry:m'', ''re:/r^i:'', ''ry:ch'', ''ry:m'', ''re:'', ''re:/r^i:'', ''ry:ch'', ''ry:mi''],
    [''m'', ''-chy:'', ''che:ho'', ''che:mu'', ''chy:/che:ho'', ''chy:'', ''che:m'', ''chy:m'', ''che:/s^i:'', ''chy:ch'', ''chy:m'', ''che:'', ''che:/s^i:'', ''chy:ch'', ''chy:mi''],
    [''m'', ''-hy:'', ''he:ho'', ''he:mu'', ''hy:/he:ho'', ''hy:'', ''he:m'', ''hy:m'', ''he:/zi:'', ''hy:ch'', ''hy:m'', ''he:'', ''he:/zi:'', ''hy:ch'', ''hy:mi''],
    [''m'', ''-y:'', ''e:ho'', ''e:mu'', ''y:/e:ho'', ''y:'', ''e:m'', ''y:m'', ''e:/i:'', ''y:ch'', ''y:m'', ''e:'', ''e:/i:'', ''y:ch'', ''y:mi''],
    [''m'', ''-([aee^ii:])ci:'', ''0ci:ho'', ''0ci:mu'', ''0ci:/0ci:ho'', ''0ci:'', ''0ci:m'', ''0ci:m'', ''0ci:'', ''0ci:ch'', ''0ci:m'', ''0ci:'', ''0ci:'', ''0ci:ch'', ''0ci:mi''],
    [''f'', ''-([aee^ii:])ci:'', ''0ci:'', ''0ci:'', ''0ci:'', ''0ci:'', ''0ci:'', ''0ci:'', ''0ci:'', ''0ci:ch'', ''0ci:m'', ''0ci:'', ''0ci:'', ''0ci:ch'', ''0ci:mi''],
    [''s'', ''-([aee^ii:])ci:'', ''0ci:ho'', ''0ci:mu'', ''0ci:/0ci:ho'', ''0ci:'', ''0ci:m'', ''0ci:m'', ''0ci:'', ''0ci:ch'', ''0ci:m'', ''0ci:'', ''0ci:'', ''0ci:ch'', ''0ci:mi''],
    [''m'', ''-([bcc^dhklmnprss^tvzz^])ni:'', ''0ni:ho'', ''0ni:mu'', ''0ni:/0ni:ho'', ''0ni:'', ''0ni:m'', ''0ni:m'', ''0ni:'', ''0ni:ch'', ''0ni:m'', ''0ni:'', ''0ni:'', ''0ni:ch'', ''0ni:mi''],
    [''f'', ''-([bcc^dhklmnprss^tvzz^])ni:'', ''0ni:'', ''0ni:'', ''0ni:'', ''0ni:'', ''0ni:'', ''0ni:'', ''0ni:'', ''0ni:ch'', ''0ni:m'', ''0ni:'', ''0ni:'', ''0ni:ch'', ''0ni:mi''],
    [''s'', ''-([bcc^dhklmnprss^tvzz^])ni:'', ''0ni:ho'', ''0ni:mu'', ''0ni:/0ni:ho'', ''0ni:'', ''0ni:m'', ''0ni:m'', ''0ni:'', ''0ni:ch'', ''0ni:m'', ''0ni:'', ''0ni:'', ''0ni:ch'', ''0ni:mi''],
    [''m'', ''-([i])tel'', ''0tele'', ''0teli'', ''0tele'', ''0teli'', ''0teli'', ''0telem'', ''0tele:'', ''0telu*'', ''0telu*m'', ''0tele'', ''0tele:'', ''0teli:ch'', ''0teli''],
    [''m'', ''-([i:])tel'', ''0tele'', ''0teli'', ''0tele'', ''0teli'', ''0teli'', ''0telem'', ''a:tele:'', ''a:tel'', ''a:telu*m'', ''a:tele'', ''a:tele:'', ''a:teli:ch'', ''a:teli''],
    [''m'', ''-([c])el'', ''0ela'', ''0elovi'', ''0ela'', ''0eli'', ''0elovi'', ''0elem'', ''celove:'', ''celu*'', ''celu*m'', ''cely'', ''celove:'', ''celi:ch'', ''cely''],
    [''m'', ''-([i])el'', ''0ela'', ''0elovi'', ''0ela'', ''0eli'', ''0elovi'', ''0elem'', ''ielove:'', ''ielu*'', ''ielu*m'', ''iely'', ''ielove:'', ''ieli:ch'', ''iely''],
    [''m'', ''-([o])is'', ''0ise'', ''0isovi'', ''0ise'', ''0isi'', ''0isovi'', ''0isem'', ''isove:'', ''isu*'', ''isu*m'', ''isovy'', ''isove:'', ''isi:ch'', ''isi''],
    [''m'', ''-([o])de^k'', ''0d^ka'', ''0d^kovi'', ''0d^ka'', ''0d^ku'', ''0d^kovi'', ''0d^kem'', ''d^kove:'', ''d^ku*'', ''d^ku*m'', ''d^ky'', ''d^kove:'', ''d^ci:ch'', ''d^ky''],
    [''s'', ''-e:'', ''e:ho'', ''e:mu'', ''e:'', ''e:'', ''e:m'', ''y:m'', ''a:'', ''y:ch'', ''y:m'', ''a:'', ''a:'', ''y:ch'', ''y:mi''],
    [''f'', ''-a:'', ''e:'', ''e:'', ''ou'', ''a:'', ''e:'', ''ou'', ''e:'', ''y:ch'', ''y:m'', ''e:'', ''e:'', ''y:ch'', ''y:mi''],
    [''-'', ''ja:'', ''mne'', ''mne^'', ''mne/me^'', ''ja:'', ''mne^'', ''mnou'', ''my'', ''na:s'', ''na:m'', ''na:s'', ''my'', ''na:s'', ''na:mi''],
    [''-'', ''ty'', ''tebe'', ''tobe^'', ''te^/tebe'', ''ty'', ''tobe^'', ''tebou'', ''vy'', ''va:s'', ''va:m'', ''va:s'', ''vy'', ''va:s'', ''va:mi''],
    [''-'', ''my'', '''', '''', '''', '''', '''', '''', ''my'', ''na:s'', ''na:m'', ''na:s'', ''my'', ''na:s'', ''na:mi''],
    [''-'', ''vy'', '''', '''', '''', '''', '''', '''', ''vy'', ''va:s'', ''va:m'', ''va:s'', ''vy'', ''va:s'', ''va:mi''],
    [''m'', ''on'', ''ne^ho'', ''mu/jemu/ne^mu'', ''ho/jej'', ''on'', ''ne^m'', ''ni:m'', ''oni'', ''nich'', ''nim'', ''je'', ''oni'', ''nich'', ''jimi/nimi''],
    [''m'', ''oni'', '''', '''', '''', '''', '''', '''', ''oni'', ''nich'', ''nim'', ''je'', ''oni'', ''nich'', ''jimi/nimi''],
    [''f'', ''ony'', '''', '''', '''', '''', '''', '''', ''ony'', ''nich'', ''nim'', ''je'', ''ony'', ''nich'', ''jimi/nimi''],
    [''s'', ''ono'', ''ne^ho'', ''mu/jemu/ne^mu'', ''ho/jej'', ''ono'', ''ne^m'', ''ni:m'', ''ona'', ''nich'', ''nim'', ''je'', ''ony'', ''nich'', ''jimi/nimi''],
    [''f'', ''ona'', ''ni:'', ''ni:'', ''ji'', ''ona'', ''ni:'', ''ni:'', ''ony'', ''nich'', ''nim'', ''je'', ''ony'', ''nich'', ''jimi/nimi''],
    [''m'', ''ten'', ''toho'', ''tomu'', ''toho'', ''ten'', ''tom'', ''ti:m'', ''ti'', ''te^ch'', ''te^m'', ''ty'', ''ti'', ''te^ch'', ''te^mi''],
    [''f'', ''ta'', ''te:'', ''te:'', ''tu'', ''ta'', ''te:'', ''tou'', ''ty'', ''te^ch'', ''te^m'', ''ty'', ''ty'', ''te^ch'', ''te^mi''],
    [''s'', ''to'', ''toho'', ''tomu'', ''toho'', ''to'', ''tom'', ''ti:m'', ''ta'', ''te^ch'', ''te^m'', ''ta'', ''ta'', ''te^ch'', ''te^mi''],
    [''m'', ''mu*j'', ''me:ho'', ''me:mu'', ''me:ho'', ''mu*j'', ''me:m'', ''my:m'', ''mi:'', ''my:ch'', ''my:m'', ''me:'', ''mi:'', ''my:ch'', ''my:mi''],
    [''f'', ''ma:'', ''me:'', ''me:'', ''mou'', ''ma:'', ''me:'', ''mou'', ''me:'', ''my:ch'', ''my:m'', ''me:'', ''me:'', ''my:ch'', ''my:mi''],
    [''f'', ''moje'', ''me:'', ''me:'', ''mou'', ''ma:'', ''me:'', ''mou'', ''moje'', ''my:ch'', ''my:m'', ''me:'', ''me:'', ''my:ch'', ''my:mi''],
    [''s'', ''me:'', ''me:ho'', ''me:mu'', ''me:'', ''moje'', ''me:m'', ''my:m'', ''me:'', ''my:ch'', ''my:m'', ''ma:'', ''ma:'', ''my:ch'', ''my:mi''],
    [''s'', ''moje'', ''me:ho'', ''me:mu'', ''moje'', ''moje'', ''me:m'', ''my:m'', ''moje'', ''my:ch'', ''my:m'', ''ma:'', ''ma:'', ''my:ch'', ''my:mi''],
    [''m'', ''tvu*j'', ''tve:ho'', ''tve:mu'', ''tve:ho'', ''tvu*j'', ''tve:m'', ''tvy:m'', ''tvi:'', ''tvy:ch'', ''tvy:m'', ''tve:'', ''tvi:'', ''tvy:ch'', ''tvy:mi''],
    [''f'', ''tva:'', ''tve:'', ''tve:'', ''tvou'', ''tva:'', ''tve:'', ''tvou'', ''tve:'', ''tvy:ch'', ''tvy:m'', ''tve:'', ''tve:'', ''tvy:ch'', ''tvy:mi''],
    [''f'', ''tvoje'', ''tve:'', ''tve:'', ''tvou'', ''tva:'', ''tve:'', ''tvou'', ''tve:'', ''tvy:ch'', ''tvy:m'', ''tve:'', ''tve:'', ''tvy:ch'', ''tvy:mi''],
    [''s'', ''tve:'', ''tve:ho'', ''tve:mu'', ''tve:ho'', ''tvu*j'', ''tve:m'', ''tvy:m'', ''tva:'', ''tvy:ch'', ''tvy:m'', ''tve:'', ''tva:'', ''tvy:ch'', ''tvy:mi''],
    [''s'', ''tvoje'', ''tve:ho'', ''tve:mu'', ''tve:ho'', ''tvu*j'', ''tve:m'', ''tvy:m'', ''tva:'', ''tvy:ch'', ''tvy:m'', ''tve:'', ''tva:'', ''tvy:ch'', ''tvy:mi''],
    [''m'', ''na:s^'', ''nas^eho'', ''nas^emu'', ''nas^eho'', ''na:s^'', ''nas^em'', ''nas^im'', ''nas^i'', ''nas^ich'', ''nas^im'', ''nas^e'', ''nas^i'', ''nas^ich'', ''nas^imi''],
    [''f'', ''nas^e'', ''nas^i:'', ''nas^i:'', ''nas^i'', ''nas^e'', ''nas^i:'', ''nas^i:'', ''nas^e'', ''nas^ich'', ''nas^im'', ''nas^e'', ''nas^e'', ''nas^ich'', ''nas^imi''],
    [''s'', ''nas^e'', ''nas^eho'', ''nas^emu'', ''nas^eho'', ''nas^e'', ''nas^em'', ''nas^im'', ''nas^e'', ''nas^ich'', ''nas^im'', ''nas^e'', ''nas^e'', ''nas^ich'', ''nas^imi''],
    [''m'', ''va:s^'', ''vas^eho'', ''vas^emu'', ''vas^eho'', ''va:s^'', ''vas^em'', ''vas^im'', ''vas^i'', ''vas^ich'', ''vas^im'', ''vas^e'', ''vas^i'', ''vas^ich'', ''vas^imi''],
    [''f'', ''vas^e'', ''vas^i:'', ''vas^i:'', ''vas^i'', ''vas^e'', ''vas^i:'', ''vas^i:'', ''vas^e'', ''vas^ich'', ''vas^im'', ''vas^e'', ''vas^e'', ''vas^ich'', ''vas^imi''],
    [''s'', ''vas^e'', ''vas^eho'', ''vas^emu'', ''vas^eho'', ''vas^e'', ''vas^em'', ''vas^im'', ''vas^e'', ''vas^ich'', ''vas^im'', ''vas^e'', ''vas^e'', ''vas^ich'', ''vas^imi''],
    [''m'', ''jeho'', ''jeho'', ''jeho'', ''jeho'', ''jeho'', ''jeho'', ''jeho'', ''jeho'', ''jeho'', ''jeho'', ''jeho'', ''jeho'', ''jeho'', ''jeho''],
    [''f'', ''jeho'', ''jeho'', ''jeho'', ''jeho'', ''jeho'', ''jeho'', ''jeho'', ''jeho'', ''jeho'', ''jeho'', ''jeho'', ''jeho'', ''jeho'', ''jeho''],
    [''s'', ''jeho'', ''jeho'', ''jeho'', ''jeho'', ''jeho'', ''jeho'', ''jeho'', ''jeho'', ''jeho'', ''jeho'', ''jeho'', ''jeho'', ''jeho'', ''jeho''],
    [''m'', ''jeji:'', ''jeji:ho'', ''jeji:mu'', ''jeji:ho'', ''jeji:'', ''jeji:m'', ''jeji:m'', ''jeji:'', ''jeji:ch'', ''jeji:m'', ''jeji:'', ''jeji:'', ''jeji:ch'', ''jeji:mi''],
    [''s'', ''jeji:'', ''jeji:ho'', ''jeji:mu'', ''jeji:ho'', ''jeji:'', ''jeji:m'', ''jeji:m'', ''jeji:'', ''jeji:ch'', ''jeji:m'', ''jeji:'', ''jeji:'', ''jeji:ch'', ''jeji:mi''],
    [''f'', ''jeji:'', ''jeji:'', ''jeji:'', ''jeji:'', ''jeji:'', ''jeji:'', ''jeji:'', ''jeji:'', ''jeji:ch'', ''jeji:m'', ''jeji:'', ''jeji:'', ''jeji:ch'', ''jeji:mi''],
    [''m'', ''jejich'', ''jejich'', ''jejich'', ''jejich'', ''jejich'', ''jejich'', ''jejich'', ''jejich'', ''jejich'', ''jejich'', ''jejich'', ''jejich'', ''jejich'', ''jejich''],
    [''s'', ''jejich'', ''jejich'', ''jejich'', ''jejich'', ''jejich'', ''jejich'', ''jejich'', ''jejich'', ''jejich'', ''jejich'', ''jejich'', ''jejich'', ''jejich'', ''jejich''],
    [''f'', ''jejich'', ''jejich'', ''jejich'', ''jejich'', ''jejich'', ''jejich'', ''jejich'', ''jejich'', ''jejich'', ''jejich'', ''jejich'', ''jejich'', ''jejich'', ''jejich''],
    [''m'', ''-bu*h'', ''boha'', ''bohu'', ''boha'', ''boz^e'', ''bohovi'', ''bohem'', ''bozi/bohove:'', ''bohu*'', ''bohu*m'', ''bohy'', ''bozi/bohove:'', ''bozi:ch'', ''bohy''],
    [''m'', ''-pan'', ''pana'', ''panu'', ''pana'', ''pane'', ''panu'', ''panem'', ''pa:ni/pa:nove:'', ''pa:nu*'', ''pa:nu*m'', ''pa:ny'', ''pa:ni/pa:nove:'', ''pa:nech'', ''pa:ny''],
    [''s'', ''mor^e'', ''mor^e'', ''mor^i'', ''mor^e'', ''mor^e'', ''mor^i'', ''mor^em'', ''mor^e'', ''mor^i:'', ''mor^i:m'', ''mor^e'', ''mor^e'', ''mor^i:ch'', ''mor^i''],
    [''-'', ''dver^e'', '''', '''', '''', '''', '''', '''', ''dver^e'', ''dver^i:'', ''dver^i:m'', ''dver^e'', ''dver^e'', ''dver^i:ch'', ''dver^mi''],
    [''-'', ''housle'', '''', '''', '''', '''', '''', '''', ''housle'', ''housli:'', ''housli:m'', ''housle'', ''housle'', ''housli:ch'', ''houslemi''],
    [''-'', ''s^le'', '''', '''', '''', '''', '''', '''', ''s^le'', ''s^li:'', ''s^li:m'', ''s^le'', ''s^le'', ''s^li:ch'', ''s^lemi''],
    [''-'', ''muka'', '''', '''', '''', '''', '''', '''', ''muka'', ''muk'', ''muka:m'', ''muka'', ''muka'', ''muka:ch'', ''mukami''],
    [''s'', ''ovoce'', ''ovoce'', ''ovoci'', ''ovoce'', ''ovoce'', ''ovoci'', ''ovocem'', '''', '''', '''', '''', '''', '''', ''''],
    [''m'', ''humus'', ''humusu'', ''humusu'', ''humus'', ''humuse'', ''humusu'', ''humusem'', ''humusy'', ''humusu*'', ''humusu*m'', ''humusy'', ''humusy'', ''humusech'', ''humusy''],
    [''m'', ''-vztek'', ''vzteku'', ''vzteku'', ''vztek'', ''vzteku'', ''vzteku'', ''vztekem'', ''vzteky'', ''vzteku*'', ''vzteku*m'', ''vzteky'', ''vzteky'', ''vzteci:ch'', ''vzteky''],
    [''m'', ''-dotek'', ''doteku'', ''doteku'', ''dotek'', ''doteku'', ''doteku'', ''dotekem'', ''doteky'', ''doteku*'', ''doteku*m'', ''doteky'', ''doteky'', ''doteci:ch'', ''doteky''],
    [''f'', ''-hra'', ''hry'', ''hr^e'', ''hru'', ''hro'', ''hr^e'', ''hrou'', ''hry'', ''her'', ''hra:m'', ''hry'', ''hry'', ''hra:ch'', ''hrami''],
    [''m'', ''zeus'', ''dia'', ''diovi'', ''dia'', ''die'', ''diovi'', ''diem'', ''diove:'', ''diu*'', ''diu*m'', '''', ''diove:'', '''', ''''],
    [''f'', ''nikol'', ''nikol'', ''nikol'', ''nikol'', ''nikol'', ''nikol'', ''nikol'', ''nikol'', ''nikol'', ''nikol'', ''nikol'', ''nikol'', ''nikol'', ''nikol''],
    [''-'', ''-tdva'', ''tidvou'', ''tidvoum'', ''tdva'', ''tdva'', ''tidvou'', ''tidve^mi'', '''', '''', '''', '''', '''', '''', ''''],
    [''-'', ''-tdve^'', ''tidvou'', ''tidve^ma'', ''tdva'', ''tdva'', ''tidvou'', ''tidve^mi'', '''', '''', '''', '''', '''', '''', ''''],
    [''-'', ''-ttr^i'', ''titr^i:'', ''titr^em'', ''ttr^i'', ''ttr^i'', ''titr^ech'', ''titr^emi'', '''', '''', '''', '''', '''', '''', ''''],
    [''-'', ''-tc^tyr^i'', ''tic^tyr^ech'', ''tic^tyr^em'', ''tc^tyr^i'', ''tc^tyr^i'', ''tic^tyr^ech'', ''tic^tyr^mi'', '''', '''', '''', '''', '''', '''', ''''],
    [''-'', ''-tpe^t'', ''tipe^ti'', ''tipe^ti'', ''tpe^t'', ''tpe^t'', ''tipe^ti'', ''tipe^ti'', '''', '''', '''', '''', '''', '''', ''''],
    [''-'', ''-ts^est'', ''tis^esti'', ''tis^esti'', ''ts^est'', ''ts^est'', ''tis^esti'', ''tis^esti'', '''', '''', '''', '''', '''', '''', ''''],
    [''-'', ''-tsedm'', ''tisedmi'', ''tisedmi'', ''tsedm'', ''tsedm'', ''tisedmi'', ''tisedmi'', '''', '''', '''', '''', '''', '''', ''''],
    [''-'', ''-tosm'', ''tiosmi'', ''tiosmi'', ''tosm'', ''tosm'', ''tiosmi'', ''tiosmi'', '''', '''', '''', '''', '''', '''', ''''],
    [''-'', ''-tdeve^t'', ''tidevi:ti'', ''tidevi:ti'', ''tdeve^t'', ''tdeve^t'', ''tidevi:ti'', ''tidevi:ti'', '''', '''', '''', '''', '''', '''', ''''],
    [''f'', ''-jedna'', ''jedne:'', ''jedne:'', ''jednu'', ''jedno'', ''jedne:'', ''jednou'', '''', '''', '''', '''', '''', '''', ''''],
    [''m'', ''-jeden'', ''jednoho'', ''jednomu'', ''jednoho'', ''jeden'', ''jednom'', ''jedni:m'', '''', '''', '''', '''', '''', '''', ''''],
    [''s'', ''-jedno'', ''jednoho'', ''jednomu'', ''jednoho'', ''jedno'', ''jednom'', ''jedni:m'', '''', '''', '''', '''', '''', '''', ''''],
    [''-'', ''-dva'', ''dvou'', ''dvoum'', ''dva'', ''dva'', ''dvou'', ''dve^mi'', '''', '''', '''', '''', '''', '''', ''''],
    [''-'', ''-dve^'', ''dvou'', ''dvoum'', ''dva'', ''dva'', ''dvou'', ''dve^mi'', '''', '''', '''', '''', '''', '''', ''''],
    [''-'', ''-tr^i'', ''tr^i:'', ''tr^em'', ''tr^i'', ''tr^i'', ''tr^ech'', ''tr^emi'', '''', '''', '''', '''', '''', '''', ''''],
    [''-'', ''-c^tyr^i'', ''c^tyr^ech'', ''c^tyr^em'', ''c^tyr^i'', ''c^tyr^i'', ''c^tyr^ech'', ''c^tyr^mi'', '''', '''', '''', '''', '''', '''', ''''],
    [''-'', ''-pe^t'', ''pe^ti'', ''pe^ti'', ''pe^t'', ''pe^t'', ''pe^ti'', ''pe^ti'', '''', '''', '''', '''', '''', '''', ''''],
    [''-'', ''-s^est'', ''s^esti'', ''s^esti'', ''s^est'', ''s^est'', ''s^esti'', ''s^esti'', '''', '''', '''', '''', '''', '''', ''''],
    [''-'', ''-sedm'', ''sedmi'', ''sedmi'', ''sedm'', ''sedm'', ''sedmi'', ''sedmi'', '''', '''', '''', '''', '''', '''', ''''],
    [''-'', ''-osm'', ''osmi'', ''osmi'', ''osm'', ''osm'', ''osmi'', ''osmi'', '''', '''', '''', '''', '''', '''', ''''],
    [''-'', ''-deve^t'', ''devi:ti'', ''devi:ti'', ''deve^t'', ''deve^t'', ''devi:ti'', ''devi:ti'', '''', '''', '''', '''', '''', '''', ''''],
    [''-'', ''deset'', ''deseti'', ''deseti'', ''deset'', ''deset'', ''deseti'', ''deseti'', '''', '''', '''', '''', '''', '''', ''''],
    [''-'', ''-na:([cs])t'', ''na:0ti'', ''na:0ti'', ''na:0t'', ''na:ct'', ''na:0ti'', ''na:0ti'', '''', '''', '''', '''', '''', '''', ''''],
    [''-'', ''-dvacet'', ''dvaceti'', ''dvaceti'', ''dvacet'', ''dvacet'', ''dvaceti'', ''dvaceti'', '''', '''', '''', '''', '''', '''', ''''],
    [''-'', ''-tr^icet'', ''tr^iceti'', ''tr^iceti'', ''tr^icet'', ''tr^icet'', ''tr^iceti'', ''tr^iceti'', '''', '''', '''', '''', '''', '''', ''''],
    [''-'', ''-c^tyr^icet'', ''c^tyr^iceti'', ''c^tyr^iceti'', ''c^tyr^icet'', ''c^tyr^icet'', ''c^tyr^iceti'', ''c^tyr^iceti'', '''', '''', '''', '''', '''', '''', ''''],
    [''-'', ''-desa:t'', ''desa:ti'', ''desa:ti'', ''desa:t'', ''desa:t'', ''desa:ti'', ''desa:ti'', '''', '''', '''', '''', '''', '''', ''''],
    [''m'', ''-([i])sta'', ''0sty'', ''0stovi'', ''0stu'', ''0sto'', ''0stovi'', ''0stou'', ''0ste:'', ''0stu*'', ''0stu*m'', ''0sty'', ''0ste:'', ''0stech'', ''0sty''],
    [''m'', ''-([o])sta'', ''0sty'', ''0stovi'', ''0stu'', ''0sto'', ''0stovi'', ''0stou'', ''0stove:'', ''0stu*'', ''0stu*m'', ''0sty'', ''0ste:'', ''0stech'', ''0sty''],
    [''m'', ''-pr^edseda'', ''pr^edsedy'', ''pr^edsedovi'', ''pr^edsedu'', ''pr^edsedo'', ''pr^edsedovi'', ''pr^edsedou'', ''pr^edsedove:'', ''pr^edsedu*'', ''pr^edsedu*m'', ''pr^edsedy'', ''pr^edsedove:'', ''pr^edsedech'', ''pr^edsedy''],
    [''m'', ''-srdce'', ''srdce'', ''srdi'', ''sdrce'', ''srdce'', ''srdci'', ''srdcem'', ''srdce'', ''srdci:'', ''srdci:m'', ''srdce'', ''srdce'', ''srdci:ch'', ''srdcemi''],
    [''m'', ''-([db])ce'', ''0ce'', ''0ci'', ''0ce'', ''0c^e'', ''0ci'', ''0cem'', ''0ci/0cove:'', ''0cu*'', ''0cu*m'', ''0ce'', ''0ci/0cove:'', ''0ci:ch'', ''0ci''],
    [''m'', ''-([jn^])ev'', ''0evu'', ''0evu'', ''0ev'', ''0eve'', ''0evu'', ''0evem'', ''0evy'', ''0evu*'', ''0evu*m'', ''0evy'', ''0evy'', ''0evech'', ''0evy''],
    [''m'', ''-([lr^])ev'', ''0evu/0va'', ''0evu/0vovi'', ''0ev/0va'', ''0eve/0ve'', ''0evu/0vovi'', ''0evem/0vem'', ''0evy/0vove:'', ''0evu*/0vu*'', ''0evu*m/0vu*m'', ''0evy/0vy'', ''0evy/0vove:'', ''0evech/0vech'', ''0evy/0vy''],
    [''m'', ''-u*([lz])'', ''o0u/o0a'', ''o0u/o0ovi'', ''u*0/o0a'', ''o0e'', ''o0u'', ''o0em'', ''o0y/o0ove:'', ''o0u*'', ''o0u*m'', ''o0y'', ''o0y/o0ove:'', ''o0ech'', ''o0y''],
    [''m'', ''nu*z^'', ''noz^e'', ''noz^i'', ''nu*z^'', ''noz^i'', ''noz^i'', ''noz^em'', ''noz^e'', ''noz^u*'', ''noz^u*m'', ''noz^e'', ''noz^e'', ''noz^i:ch'', ''noz^i''],
    [''s'', ''-([bcc^dghkss^tvzz^])lo'', ''0la'', ''0lu'', ''0lo'', ''0lo'', ''0lu'', ''0lem'', ''0la'', ''0el'', ''0lu*m'', ''0la'', ''0la'', ''0lech'', ''0ly''],
    [''s'', ''-([bcc^dnss^tvzz^])ko'', ''0ka'', ''0ku'', ''0ko'', ''0ko'', ''0ku'', ''0kem'', ''0ka'', ''0ek'', ''0ku*m'', ''0ka'', ''0ka'', ''0ci:ch/0ka:ch'', ''0ky''],
    [''s'', ''-([bcc^dkss^tvzz^])no'', ''0na'', ''0nu'', ''0no'', ''0no'', ''0nu'', ''0nem'', ''0na'', ''0en'', ''0nu*m'', ''0na'', ''0na'', ''0nech/0na:ch'', ''0ny''],
    [''s'', ''-o'', ''a'', ''u'', ''o'', ''o'', ''u'', ''em'', ''a'', '''', ''u*m'', ''a'', ''a'', ''ech'', ''y''],
    [''s'', ''-i:'', ''i:'', ''i:'', ''i:'', ''i:'', ''i:'', ''i:m'', ''i:'', ''i:'', ''i:m'', ''i:'', ''i:'', ''i:ch'', ''i:mi''],
    [''s'', ''-([c^d^t^])([e])'', ''10te'', ''10ti'', ''10'', ''10'', ''10ti'', ''10tem'', ''1ata'', ''1at'', ''1atu*m'', ''1ata'', ''1ata'', ''1atech'', ''1aty''],
    [''f'', ''-([aeiouya:e:i:o:u:y:])ka'', ''0ky'', ''0ce'', ''0ku'', ''0ko'', ''0ce'', ''0kou'', ''0ky'', ''0k'', ''0ka:m'', ''0ky'', ''0ky'', ''0ka:ch'', ''0kami''],
    [''f'', ''-ka'', ''ky'', ''ce'', ''ku'', ''ko'', ''ce'', ''kou'', ''ky'', ''ek'', ''ka:m'', ''ky'', ''ky'', ''ka:ch'', ''kami''],
    [''f'', ''-([bdghkmnptvz])ra'', ''0ry'', ''0r^e'', ''0ru'', ''0ro'', ''0r^e'', ''0rou'', ''0ry'', ''0er'', ''0ra:m'', ''0ry'', ''0ry'', ''0ra:ch'', ''0rami''],
    [''f'', ''-ra'', ''ry'', ''r^e'', ''ru'', ''ro'', ''r^e'', ''rou'', ''ry'', ''r'', ''ra:m'', ''ry'', ''ry'', ''ra:ch'', ''rami''],
    [''f'', ''-([tdbnvmp])a'', ''0y'', ''0e^'', ''0u'', ''0o'', ''0e^'', ''0ou'', ''0y'', ''0'', ''0a:m'', ''0y'', ''0y'', ''0a:ch'', ''0ami''],
    [''f'', ''-cha'', ''chy'', ''s^e'', ''chu'', ''cho'', ''s^e'', ''chou'', ''chy'', ''ch'', ''cha:m'', ''chy'', ''chy'', ''cha:ch'', ''chami''],
    [''f'', ''-([gh])a'', ''0y'', ''ze'', ''0u'', ''0o'', ''ze'', ''0ou'', ''0y'', ''0'', ''0a:m'', ''0y'', ''0y'', ''0a:ch'', ''0ami''],
    [''f'', ''-n^a'', ''ni'', ''ne^'', ''n^ou'', ''n^o'', ''ni'', ''n^ou'', ''ne^/nic^ky'', ''n^'', ''n^a:m'', ''ne^/nic^ky'', ''ne^/nic^ky'', ''n^a:ch'', ''n^ami''],
    [''f'', ''-([s^c^])a'', ''0i'', ''0e'', ''0u'', ''0o'', ''0e'', ''0ou'', ''0e/0i'', ''0'', ''0a:m'', ''0e/0i'', ''0e/0i'', ''0a:ch'', ''0ami''],
    [''f'', ''-a'', ''y'', ''e'', ''u'', ''o'', ''e'', ''ou'', ''y'', '''', ''a:m'', ''y'', ''y'', ''a:ch'', ''ami''],
    [''f'', ''-en^'', ''ne^'', ''ni'', ''en^'', ''ni'', ''ni'', ''ni:'', ''ne^'', ''ni:'', ''ni:m'', ''ne^'', ''ne^'', ''ni:ch'', ''ne^mi''],
    [''f'', ''-on^'', ''one^'', ''oni'', ''on^'', ''oni'', ''oni'', ''oni:'', ''one^'', ''oni:'', ''oni:m'', ''one^'', ''one^'', ''oni:ch'', ''one^mi''],
    [''f'', ''-([e^])j'', ''0je'', ''0ji'', ''0j'', ''0ji'', ''0ji'', ''0ji:'', ''0je'', ''0ji:'', ''0ji:m'', ''0je'', ''0je'', ''0ji:ch'', ''0jemi''],
    [''f'', ''-ev'', ''ve'', ''vi'', ''ev'', ''vi'', ''vi'', ''vi:'', ''ve'', ''vi:'', ''vi:m'', ''ve'', ''ve'', ''vi:ch'', ''vemi''],
    [''f'', ''-ice'', ''ice'', ''ici'', ''ici'', ''ice'', ''ici'', ''ici:'', ''ice'', ''ic'', ''ici:m'', ''ice'', ''ice'', ''ici:ch'', ''icemi''],
    [''f'', ''-e'', ''e'', ''i'', ''i'', ''e'', ''i'', ''i:'', ''e'', ''i:'', ''i:m'', ''e'', ''e'', ''i:ch'', ''emi''],
    [''f'', ''-([eaa:])([jz^n^])'', ''10e/10i'', ''10i'', ''10'', ''10i'', ''10i'', ''10i:'', ''10e/10i'', ''10i:'', ''10i:m'', ''10e'', ''10e'', ''10i:ch'', ''10emi''],
    [''f'', ''-([eayo])([s^])'', ''10e/10i'', ''10i'', ''10'', ''10i'', ''10i'', ''10i:'', ''10e/10i'', ''10i:'', ''10i:m'', ''10e'', ''10e'', ''10i:ch'', ''10emi''],
    [''f'', ''-([i:y])n^'', ''0ne^'', ''0ni'', ''0n^'', ''0ni'', ''0ni'', ''0ni:'', ''0ne^'', ''0ni:'', ''0ni:m'', ''0ne^'', ''0ne^'', ''0ni:ch'', ''0ne^mi''],
    [''f'', ''-([i:yy:])n^e'', ''0ne^'', ''0ni'', ''0n^'', ''0ni'', ''0ni'', ''0ni:'', ''0ne^'', ''0ni:'', ''0ni:m'', ''0ne^'', ''0ne^'', ''0ni:ch'', ''0ne^mi''],
    [''f'', ''-([t^d^z^])'', ''0e'', ''0i'', ''0'', ''0i'', ''0i'', ''0i:'', ''0e'', ''0i:'', ''0i:m'', ''0e'', ''0e'', ''0i:ch'', ''0emi''],
    [''f'', ''-tor^'', ''tor^e'', ''tor^i'', ''tor^'', ''tor^i'', ''tor^i'', ''tor^i:'', ''tor^e'', ''tor^i:'', ''tor^i:m'', ''tor^e'', ''tor^e'', ''tor^i:ch'', ''tor^emi''],
    [''f'', ''-ep'', ''epi'', ''epi'', ''ep'', ''epi'', ''epi'', ''epi:'', ''epi'', ''epi:'', ''epi:m'', ''epi'', ''epi'', ''epi:ch'', ''epmi''],
    [''f'', ''-st'', ''sti'', ''sti'', ''st'', ''sti'', ''sti'', ''sti:'', ''sti'', ''sti:'', ''stem'', ''sti'', ''sti'', ''stech'', ''stmi''],
    [''f'', ''ves'', ''vsi'', ''vsi'', ''ves'', ''vsi'', ''vsi'', ''vsi:'', ''vsi'', ''vsi:'', ''vsem'', ''vsi'', ''vsi'', ''vsech'', ''vsemi''],
    [''m'', ''-([e])us'', ''0a'', ''0u/0ovi'', ''0a'', ''0e'', ''0u/0ovi'', ''0em'', ''0ove:'', ''0u*'', ''0u*m'', ''0y'', ''0ove:'', ''0i:ch'', ''0y''],
    [''m'', ''-([i])us'', ''0a'', ''0u/0ovi'', ''0a'', ''0e'', ''0u/0ovi'', ''0em'', ''0ove:'', ''0u*'', ''0u*m'', ''0usy'', ''0ove:'', ''0i:ch'', ''0usy''],
    [''m'', ''-([i])s'', ''0se'', ''0su/0sovi'', ''0se'', ''0se/0si'', ''0su/0sovi'', ''0sem'', ''0sy/0sove:'', ''0su*'', ''0su*m'', ''0sy'', ''0sy/0ove:'', ''0ech'', ''0sy''],
    [''m'', ''vy:trus'', ''vy:trusu'', ''vy:trusu'', ''vy:trus'', ''vy:truse'', ''vy:trusu'', ''vy:trusem'', ''vy:trusy'', ''vy:trusu*'', ''vy:trusu*m'', ''vy:trusy'', ''vy:trusy'', ''vy:trusech'', ''vy:trusy''],
    [''m'', ''trus'', ''trusu'', ''trusu'', ''trus'', ''truse'', ''trusu'', ''trusem'', ''trusy'', ''trusu*'', ''trusu*m'', ''trusy'', ''trusy'', ''trusech'', ''trusy''],
    [''m'', ''-([aeioumpts])([lnmrktp])us'', ''10u/10a'', ''10u/10ovi'', ''10us/10a'', ''10e'', ''10u/10ovi'', ''10em'', ''10y/10ove:'', ''10u*'', ''10u*m'', ''10y'', ''10y/10ove:'', ''10ech'', ''10y''],
    [''s'', ''-([l])um'', ''0a'', ''0u'', ''0um'', ''0um'', ''0u'', ''0em'', ''0a'', ''0'', ''0u*m'', ''0a'', ''0a'', ''0ech'', ''0y''],
    [''s'', ''-([k])um'', ''0a'', ''0u'', ''0um'', ''0um'', ''0u'', ''0em'', ''0a'', ''0'', ''0u*m'', ''0a'', ''0a'', ''0ci:ch'', ''0y''],
    [''s'', ''-([i])um'', ''0a'', ''0u'', ''0um'', ''0um'', ''0u'', ''0em'', ''0a'', ''0i:'', ''0u*m'', ''0a'', ''0a'', ''0ii:ch'', ''0y''],
    [''s'', ''-io'', ''0a'', ''0u'', ''0'', ''0'', ''0u'', ''0em'', ''0a'', ''0i:'', ''0u*m'', ''0a'', ''0a'', ''0ii:ch'', ''0y''],
    [''m'', ''-([aeiouya:e:i:o:u:y:])r'', ''0ru/0ra'', ''0ru/0rovi'', ''0r/0ra'', ''0re'', ''0ru/0rovi'', ''0rem'', ''0ry/0rove:'', ''0ru*'', ''0ru*m'', ''0ry'', ''0ry/0rove:'', ''0rech'', ''0ry''],
    [''m'', ''-r'', ''ru/ra'', ''ru/rovi'', ''r/ra'', ''r^e'', ''ru/rovi'', ''rem'', ''ry/rove:'', ''ru*'', ''ru*m'', ''ry'', ''ry/rove:'', ''rech'', ''ry''],
    [''m'', ''-([mnp])en'', ''0enu/0ena'', ''0enu/0enovi'', ''0en/0na'', ''0ene'', ''0enu/0enovi'', ''0enem'', ''0eny/0enove:'', ''0enu*'', ''0enu*m'', ''0eny'', ''0eny/0enove:'', ''0enech'', ''0eny''],
    [''m'', ''-([bcc^dstvz])en'', ''0nu/0na'', ''0nu/0novi'', ''0en/0na'', ''0ne'', ''0nu/0novi'', ''0nem'', ''0ny/0nove:'', ''0nu*'', ''0nu*m'', ''0ny'', ''0ny/0nove:'', ''0nech'', ''0ny''],
    [''m'', ''-([dglmnpbtvzs])'', ''0u/0a'', ''0u/0ovi'', ''0/0a'', ''0e'', ''0u/0ovi'', ''0em'', ''0y/0ove:'', ''0u*'', ''0u*m'', ''0y'', ''0y/0ove:'', ''0ech'', ''0y''],
    [''m'', ''-([x])'', ''0u/0e'', ''0u/0ovi'', ''0/0e'', ''0i'', ''0u/0ovi'', ''0em'', ''0y/0ove:'', ''0u*'', ''0u*m'', ''0y'', ''0y/0ove:'', ''0ech'', ''0y''],
    [''m'', ''sek'', ''seku/seka'', ''seku/sekovi'', ''sek/seka'', ''seku'', ''seku/sekovi'', ''sekem'', ''seky/sekove:'', ''seku*'', ''seku*m'', ''seky'', ''seky/sekove:'', ''seci:ch'', ''seky''],
    [''m'', ''vy:sek'', ''vy:seku/vy:seka'', ''vy:seku/vy:sekovi'', ''vy:sek/vy:seka'', ''vy:seku'', ''vy:seku/vy:sekovi'', ''vy:sekem'', ''vy:seky/vy:sekove:'', ''vy:seku*'', ''vy:seku*m'', ''vy:seky'', ''vy:seky/vy:sekove:'', ''vy:seci:ch'', ''vy:seky''],
    [''m'', ''za:sek'', ''za:seku/za:seka'', ''za:seku/za:sekovi'', ''za:sek/za:seka'', ''za:seku'', ''za:seku/za:sekovi'', ''za:sekem'', ''za:seky/za:sekove:'', ''za:seku*'', ''za:seku*m'', ''za:seky'', ''za:seky/za:sekove:'', ''za:seci:ch'', ''za:seky''],
    [''m'', ''pru*sek'', ''pru*seku/pru*seka'', ''pru*seku/pru*sekovi'', ''pru*sek/pru*seka'', ''pru*seku'', ''pru*seku/pru*sekovi'', ''pru*sekem'', ''pru*seky/pru*sekove:'', ''pru*seku*'', ''vy:seku*m'', ''pru*seky'', ''pru*seky/pru*sekove:'', ''pru*seci:ch'', ''pru*seky''],
    [''m'', ''-([cc^s^z^dnn^mpbrstvz])ek'', ''0ku/0ka'', ''0ku/0kovi'', ''0ek/0ka'', ''0ku'', ''0ku/0kovi'', ''0kem'', ''0ky/0kove:'', ''0ku*'', ''0ku*m'', ''0ky'', ''0ky/0kove:'', ''0ci:ch'', ''0ky''],
    [''m'', ''-([k])'', ''0u/0a'', ''0u/0ovi'', ''0/0a'', ''0u'', ''0u/0ovi'', ''0em'', ''0y/0ove:'', ''0u*'', ''0u*m'', ''0y'', ''0y/0ove:'', ''ci:ch'', ''0y''],
    [''m'', ''-ch'', ''chu/cha'', ''chu/chovi'', ''ch/cha'', ''chu/cha'', ''chu/chovi'', ''chem'', ''chy/chove:'', ''chu*'', ''chu*m'', ''chy'', ''chy/chove:'', ''s^i:ch'', ''chy''],
    [''m'', ''-([h])'', ''0u/0a'', ''0u/0ovi'', ''0/0a'', ''0u'', ''0u/0ovi'', ''0em'', ''0y/0ove:'', ''0u*'', ''0u*m'', ''0y'', ''0y/0ove:'', ''zi:ch'', ''0y''],
    [''m'', ''-e([mnz])'', ''0u/0a'', ''0u/0ovi'', ''e0/e0a'', ''0e'', ''0u/0ovi'', ''0em'', ''0y/0ove:'', ''0u*'', ''0u*m'', ''0y'', ''0y/0ove:'', ''0ech'', ''0y''],
    [''m'', ''-ec'', ''ce'', ''ci/covi'', ''ec/ce'', ''c^e'', ''ci/covi'', ''cem'', ''ce/cove:'', ''cu*'', ''cu*m'', ''ce'', ''ce/cove:'', ''ci:ch'', ''ci''],
    [''m'', ''-([cc^d^s^n^r^t^z^])'', ''0e'', ''0i/0ovi'', ''0e'', ''0i'', ''0i/0ovi'', ''0em'', ''0e/0ove:'', ''0u*'', ''0u*m'', ''0e'', ''0e/0ove:'', ''0i:ch'', ''0i''],
    [''m'', ''-oj'', ''oje'', ''oji/ojovi'', ''oj/oje'', ''oji'', ''oji/ojovi'', ''ojem'', ''oje/ojove:'', ''oju*'', ''oju*m'', ''oje'', ''oje/ojove:'', ''oji:ch'', ''oji''],
    [''m'', ''-([gh])a'', ''0y'', ''0ovi'', ''0u'', ''0o'', ''0ovi'', ''0ou'', ''0ove:'', ''0u*'', ''0u*m'', ''0y'', ''0ove:'', ''zi:ch'', ''0y''],
    [''m'', ''-([k])a'', ''0y'', ''0ovi'', ''0u'', ''0o'', ''0ovi'', ''0ou'', ''0ove:'', ''0u*'', ''0u*m'', ''0y'', ''0ove:'', ''ci:ch'', ''0y''],
    [''m'', ''-a'', ''y'', ''ovi'', ''u'', ''o'', ''ovi'', ''ou'', ''ove:'', ''u*'', ''u*m'', ''y'', ''ove:'', ''ech'', ''y''],
    [''f'', ''-l'', ''le'', ''li'', ''l'', ''li'', ''li'', ''li:'', ''le'', ''li:'', ''li:m'', ''le'', ''le'', ''li:ch'', ''lemi''],
    [''f'', ''-i:'', ''i:'', ''i:'', ''i:'', ''i:'', ''i:'', ''i:'', ''i:'', ''i:ch'', ''i:m'', ''i:'', ''i:'', ''i:ch'', ''i:mi''],
    [''f'', ''-([jr^])'', ''0e'', ''0i'', ''0'', ''0i'', ''0i'', ''0i:'', ''0e'', ''0i:'', ''0i:m'', ''0e'', ''0e'', ''0i:ch'', ''0emi''],
    [''f'', ''-([c^])'', ''0i'', ''0i'', ''0'', ''0i'', ''0i'', ''0i:'', ''0i'', ''0i:'', ''0i:m'', ''0i'', ''0i'', ''0i:ch'', ''0mi''],
    [''f'', ''-([s^])'', ''0i'', ''0i'', ''0'', ''0i'', ''0i'', ''0i:'', ''0i'', ''0i:'', ''0i:m'', ''0i'', ''0i'', ''0i:ch'', ''0emi''],
    [''s'', ''-([sljr^n^])e'', ''0ete'', ''0eti'', ''0e'', ''0e'', ''0eti'', ''0etem'', ''0ata'', ''0at'', ''0atu*m'', ''0ata'', ''0ata'', ''0atech'', ''0aty''],
    [''m'', ''-j'', ''je'', ''ji'', ''j'', ''ji'', ''ji'', ''jem'', ''je/jove:'', ''ju*'', ''ju*m'', ''je'', ''je/jove:'', ''ji:ch'', ''ji''],
    [''m'', ''-f'', ''fa'', ''fu/fovi'', ''f/fa'', ''fe'', ''fu/fovi'', ''fem'', ''fy/fove:'', ''fu*'', ''fu*m'', ''fy'', ''fy/fove:'', ''fech'', ''fy''],
    [''m'', ''-i:'', ''i:ho'', ''i:mu'', ''i:ho'', ''i:'', ''i:mu'', ''i:m'', ''i:'', ''i:ch'', ''i:m'', ''i:'', ''i:'', ''i:ch'', ''i:mi''],
    [''m'', ''-go'', ''a'', ''govi'', ''ga'', ''ga'', ''govi'', ''gem'', ''gove:'', ''gu*'', ''gu*m'', ''gy'', ''gove:'', ''zi:ch'', ''gy''],
    [''m'', ''-o'', ''a'', ''ovi'', ''a'', ''o'', ''ovi'', ''em'', ''ove:'', ''u*'', ''u*m'', ''y'', ''ove:'', ''ech'', ''y''],
    ['''', ''-([tp])y'', '''', '''', '''', '''', '''', '''', ''0y'', ''0'', ''0u*m'', ''0y'', ''0y'', ''0ech'', ''0ami''],
    ['''', ''-([k])y'', '''', '''', '''', '''', '''', '''', ''0y'', ''e0'', ''0a:m'', ''0y'', ''0y'', ''0a:ch'', ''0ami''],
    [''f'', ''-ar'', ''ary'', ''ar^e'', ''ar'', ''ar'', ''ar'', ''ar'', ''ary'', ''ar'', ''ara:m'', ''ary'', ''ary'', ''ara:ch'', ''arami''],
    [''f'', ''-am'', ''am'', ''am'', ''am'', ''am'', ''am'', ''am'', ''am'', ''am'', ''am'', ''am'', ''am'', ''am'', ''am''],
    [''f'', ''-er'', ''er'', ''er'', ''er'', ''er'', ''er'', ''er'', ''ery'', ''er'', ''era:m'', ''ery'', ''ery'', ''era:ch'', ''erami''],
    [''m'', ''-oe'', ''oema'', ''oemovi'', ''oema'', ''oeme'', ''emovi'', ''emem'', ''oemove:'', ''oemu*'', ''oemu*m'', ''oemy'', ''oemove:'', ''oemech'', ''oemy''],
    [''f'', ''-a'', ''y'', ''e^'', ''u'', ''o'', ''e^'', ''ou'', ''y'', '''', ''a:m'', ''y'', ''y'', ''a:ch'', ''ami'']
  ]"

text \<open>\<open>this.exceptions\<close>: the word, the stem that replaces it, and form 4.\<close>

definition exceptions :: "(string \<times> string \<times> string) list" where
  "exceptions = [
    (''bor^ek'', ''bor^k'', ''bor^ka''),
    (''bor^ek'', ''bor^k'', ''bor^ka''),
    (''chleba'', ''chleb'', ''chleba''),
    (''chle:b'', ''chleb'', ''chleba''),
    (''cyklus'', ''cykl'', ''cyklus''),
    (''dvu*r'', ''dvor'', ''dvu*r''),
    (''de:s^t^'', ''des^t^'', ''de:s^t^''),
    (''du*l'', ''dol'', ''du*l''),
    (''havel'', ''havl'', ''havla''),
    (''hnu*j'', ''hnoj'', ''hnu*j''),
    (''hu*l'', ''hole'', ''hu*l''),
    (''karel'', ''karl'', ''karla''),
    (''kel'', ''kl'', ''kel''),
    (''kotel'', ''kotl'', ''kotel''),
    (''ku*n^'', ''kon^'', ''kone^''),
    (''lude^k'', ''lud^k'', ''lud^ka''),
    (''li:h'', ''lih'', ''li:h''),
    (''mra:z'', ''mraz'', ''mra:z''),
    (''mys^'', ''mys^e'', ''mys^''),
    (''nehet'', ''neht'', ''nehet''),
    (''ocet'', ''oct'', ''octa''),
    (''osel'', ''osl'', ''osla''),
    (''pavel'', ''pavl'', ''pavla''),
    (''pes'', ''ps'', ''psa''),
    (''pen^'', ''pn^'', ''pen^''),
    (''posel'', ''posl'', ''posla''),
    (''prsten'', ''prsty:nek'', ''prsty:nku''),
    (''pytel'', ''pytl'', ''pytel''),
    (''pu*l'', ''pu*le'', ''pu*li''),
    (''skry:s^'', ''skry:s^e'', ''skry:s^''),
    (''smrt'', ''smrt^'', ''smrt''),
    (''sni:h'', ''sne^h'', ''sni:h''),
    (''sopel'', ''sopl'', ''sopel''),
    (''stupen^'', ''stupn^'', ''stupen^''),
    (''stu*l'', ''stol'', ''stu*l''),
    (''svatoza:r^'', ''svatoza:r^e'', ''svatoza:r^''),
    (''su*l'', ''sole'', ''su*l''),
    (''tu*n^'', ''tu*n^e'', ''tu*n^''),
    (''ves^'', ''vs^'', ''ves^''),
    (''vi:tr'', ''ve^tr'', ''vi:tr''),
    (''vu*l'', ''vol'', ''vola''),
    (''zed^'', ''zd^'', ''zed^''),
    (''za:r^'', ''za:r^e'', ''za:r^''),
    (''u:c^et'', ''u:c^t'', ''u:c^et'')
  ]"

text \<open>\<open>this.forceM\<close>, \<open>this.forceF\<close> and \<open>this.forceS\<close>: words with a fixed gender.\<close>

definition forceM :: "string list" where
  "forceM = [
    ''alexej'', ''ales^'', ''alois'', ''ambroz^'', ''ametyst'', ''andrej'', ''arest'',
    ''azbest'', ''bartolome^j'', ''bruno'', ''chlast'', ''chr^est'', ''c^aj'', ''c^arod^ej'',
    ''darmod^ej'', ''des^t^'', ''displej'', ''dobrod^ej'', ''dra:kula'', ''d^eda'', ''d^ej'',
    ''host'', ''hranostaj'', ''hugo'', ''ha:j'', ''ilja'', ''ivo'', ''jirka'', ''jir^i:'',
    ''kolega'', ''kolod^ej'', ''komor^i:'', ''kontest'', ''kon^'', ''kvido'', ''kr^i:z^'',
    ''lany:z^'', ''luka:s^'', ''mat^ej'', ''mikola:s^'', ''mikula:s^'', ''mluvka'', ''most'',
    ''motorest'', ''moula'', ''muz^'', ''noe'', ''ondr^ej'', ''oto'', ''otto'', ''papez^'',
    ''pepa'', ''pen^'', ''plast'', ''podkoni:'', ''polda'', ''prodej'', ''protest'', ''rest'',
    ''sas^a'', ''sled^'', ''slouha'', ''sluha'', ''sprej'', ''strejda'', ''stupen^'',
    ''st^ez^en^'', ''s^moula'', ''termoplast'', ''test'', ''tobia:s^'', ''toma:s^'', ''trest'',
    ''ta:ta'', ''velmoz^'', ''vy:dej'', ''vy:prodej'', ''ve^zen^'', ''zet^'', ''zlod^ej'',
    ''z^okej''
  ]"

definition forceF :: "string list" where
  "forceF = [
    ''dagmar'', ''des^t^'', ''digestor^'', ''ester'', ''kancela:r^'', ''klec^'',
    ''konzervator^'', ''koudel'', ''koupel'', ''kr^ec^'', ''mas^tal'', ''miriam'', ''neter^'',
    ''obec'', ''ocel'', ''orator^'', ''otep'', ''postel'', ''prdel'', ''rozkos^'', ''r^ec^'',
    ''sber^'', ''trofej'', ''ves'', ''vy:stroj'', ''vy:zbroj'', ''vs^'', ''zbroj'', ''ztec^'',
    ''zve^r^'', ''za:ve^j''
  ]"

definition forceS :: "string list" where
  "forceS = [
    ''house'', ''kur^e'', ''ku*zle'', ''nemluvn^e'', ''osle'', ''prase'', ''sele'',
    ''slu*ne^'', ''tele'', ''vejce'', ''zvi:r^e''
  ]"

section \<open>The engine\<close>

subsection \<open>Helpers of the string class\<close>

text \<open>\<open>text.split(' ')\<close>: the pieces between the spaces, empty pieces included.\<close>

fun split_sp :: "jstring \<Rightarrow> jstring list" where
  "split_sp [] = [[]]"
| "split_sp (c # cs) =
     (if c = 32 then [] # split_sp cs
      else (case split_sp cs of [] \<Rightarrow> [[c]] | w # ws \<Rightarrow> (c # w) # ws))"

text \<open>\<open>partials.join(' ')\<close>; an element that is \<open>undefined\<close> is joined as the empty string.\<close>

fun join_sp :: "jstring option list \<Rightarrow> jstring" where
  "join_sp [] = []"
| "join_sp [x] = (case x of None \<Rightarrow> [] | Some s \<Rightarrow> s)"
| "join_sp (x # y # ys) = (case x of None \<Rightarrow> [] | Some s \<Rightarrow> s) @ 32 # join_sp (y # ys)"

text \<open>\<open>postfix.indexOf('/')\<close>, with \<open>None\<close> for -1.\<close>

fun indexOf :: "jchar \<Rightarrow> jstring \<Rightarrow> nat option" where
  "indexOf c [] = None"
| "indexOf c (x # xs) = (if x = c then Some 0 else map_option Suc (indexOf c xs))"

text \<open>
  \<open>s.replace(pat, rep)\<close> with a string pattern: the first occurrence only. The replacement
  strings of the engine are letters captured by a character class, so the \<open>$\<close> patterns of
  a replacement string play no part and are not modelled.
\<close>

fun replace_first :: "jstring \<Rightarrow> jstring \<Rightarrow> jstring \<Rightarrow> jstring" where
  "replace_first pat rep [] = (if pat = [] then rep else [])"
| "replace_first pat rep (c # cs) =
     (if take (length pat) (c # cs) = pat then rep @ drop (length pat) (c # cs)
      else c # replace_first pat rep cs)"

text \<open>The property key of an array index: its decimal digits.\<close>

fun index_key :: "nat \<Rightarrow> jstring" where
  "index_key n = (if n < 10 then [48 + n] else index_key (n div 10) @ [48 + n mod 10])"

declare index_key.simps [simp del]

subsection \<open>breakAccents, fixAccents, capitalize\<close>

fun breakAccents :: "jstring \<Rightarrow> jstring" where
  "breakAccents (a # b # r) =
     (if a = 100 \<and> b = 105 then 271 # 105 # breakAccents r
      else if a = 116 \<and> b = 105 then 357 # 105 # breakAccents r
      else if a = 110 \<and> b = 105 then 328 # 105 # breakAccents r
      else if a = 100 \<and> b = 283 then 271 # 101 # breakAccents r
      else if a = 116 \<and> b = 283 then 357 # 101 # breakAccents r
      else if a = 110 \<and> b = 283 then 328 # 101 # breakAccents r
      else a # breakAccents (b # r))"
| "breakAccents r = r"

fun fixAccents :: "jstring \<Rightarrow> jstring" where
  "fixAccents (a # b # r) =
     (if a = 271 \<and> b = 105 then 100 # 105 # fixAccents r
      else if a = 357 \<and> b = 105 then 116 # 105 # fixAccents r
      else if a = 328 \<and> b = 105 then 110 # 105 # fixAccents r
      else if a = 271 \<and> b = 101 then 100 # 283 # fixAccents r
      else if a = 357 \<and> b = 101 then 116 # 283 # fixAccents r
      else if a = 328 \<and> b = 101 then 110 # 283 # fixAccents r
      else a # fixAccents (b # r))"
| "fixAccents r = r"

definition capitalize :: "jstring \<Rightarrow> jstring" where
  "capitalize word = toUpperCase (take 1 word) @ drop 1 word"

subsection \<open>match\<close>

text \<open>
  The regular expressions of the pattern table are sequences of literal characters and of
  capturing groups that hold one character class, \<open>([...])\<close>. \<open>regex_parse\<close> reads this
  fragment of the syntax and gives \<open>None\<close> on every other one.
\<close>

datatype elem = Lit jchar | Group "jchar list"

datatype pstate = Top | Opened | InClass "jchar list" | Closed "jchar list"

definition syntax_char :: "jchar \<Rightarrow> bool" where
  "syntax_char c \<longleftrightarrow>
     (if c < 91 then c \<in> {36, 40, 41, 42, 43, 46, 63}
      else if c \<le> 94 then True
      else 123 \<le> c \<and> c \<le> 125)"

fun regex_parse :: "pstate \<Rightarrow> jstring \<Rightarrow> elem list option" where
  "regex_parse Top [] = Some []"
| "regex_parse Top (c # r) =
     (if c = 40 then regex_parse Opened r
      else if syntax_char c then None
      else map_option (Cons (Lit c)) (regex_parse Top r))"
| "regex_parse Opened (c # r) = (if c = 91 then regex_parse (InClass []) r else None)"
| "regex_parse (InClass cs) (c # r) =
     (if c = 93 then (if cs = [] then None else regex_parse (Closed cs) r)
      else if syntax_char c \<or> c = 45 then None
      else regex_parse (InClass (cs @ [c])) r)"
| "regex_parse (Closed cs) (c # r) =
     (if c = 41 then map_option (Cons (Group cs)) (regex_parse Top r) else None)"
| "regex_parse _ [] = None"

text \<open>
  One element against one code unit, under the flags \<open>iu\<close>: both sides are canonicalized.
\<close>

fun elem_matches :: "elem \<Rightarrow> jchar \<Rightarrow> bool" where
  "elem_matches (Lit p) c = (canonicalize c = canonicalize p)"
| "elem_matches (Group cs) c = list_ex (\<lambda>p. canonicalize c = canonicalize p) cs"

text \<open>
  Every element takes exactly one code unit and the expression ends in \<open>$\<close>, so the only
  possible match is the one of the last \<open>length es\<close> code units. The captures are the code
  units of the input that the groups took, from left to right.
\<close>

fun elems_match :: "elem list \<Rightarrow> jstring \<Rightarrow> bool" where
  "elems_match [] [] = True"
| "elems_match (e # es) (c # w) = (if elem_matches e c then elems_match es w else False)"
| "elems_match _ _ = False"

fun captures :: "elem list \<Rightarrow> jstring \<Rightarrow> jstring list" where
  "captures (Group cs # es) (c # w) = [c] # captures es w"
| "captures (Lit p # es) (c # w) = captures es w"
| "captures _ _ = []"

definition regex_exec :: "elem list \<Rightarrow> jstring \<Rightarrow> (nat \<times> jstring list) option" where
  "regex_exec es word =
     (if length es \<le> length word \<and> elems_match es (drop (length word - length es) word)
      then Some (length word - length es, captures es (drop (length word - length es) word))
      else None)"

datatype error = TypeError | OutsideRegexFragment

text \<open>
  The instance holds one mutable field, the array \<open>this.replacements\<close>. Every function that
  reads or writes it takes the array and returns it next to its outcome, also when the
  outcome is an exception: what was stored before the \<open>throw\<close> stays stored.

  \<open>match(pattern, word)\<close>: the outcome \<open>None\<close> stands for -1. After a match with \<open>n\<close> groups
  the loop stores group \<open>n - j\<close> at index \<open>j\<close> for \<open>j < n\<close>, and leaves what the array held
  from index \<open>n\<close> on.
\<close>

definition match :: "jstring \<Rightarrow> jstring \<Rightarrow> jstring list \<Rightarrow> (error + nat option) \<times> jstring list" where
  "match pattern word replacements =
     (if take 1 pattern \<noteq> [45] then
        (Inr (if toLowerCase pattern = toLowerCase word then Some 0 else None), replacements)
      else case regex_parse Top (drop 1 pattern) of
        None \<Rightarrow> (Inl OutsideRegexFragment, replacements)
      | Some es \<Rightarrow>
          (case regex_exec es word of
             None \<Rightarrow> (Inr None, replacements)
           | Some (left, groups) \<Rightarrow>
               (Inr (Some left), rev groups @ drop (length groups) replacements)))"

subsection \<open>inflect\<close>

text \<open>
  An object with integer keys (\<open>inflectedWord\<close>, and the object spread from
  \<open>Array(14).fill(word)\<close>) is the list of what it holds under the keys 0 to 14, \<open>None\<close> for
  a key it does not have. The returned array, which has a hole at index 0, is a list of the
  same kind.
\<close>

type_synonym forms = "jstring option list"

text \<open>The test \<open>gender && ...\<close>: neither \<open>null\<close> nor the empty string.\<close>

definition truthy :: "jstring option \<Rightarrow> bool" where
  "truthy g \<longleftrightarrow> g \<noteq> None \<and> g \<noteq> Some []"

text \<open>The loop \<open>for (let i in this.replacements)\<close> over one form template.\<close>

definition substitute :: "jstring list \<Rightarrow> jstring \<Rightarrow> jstring" where
  "substitute replacements postfix =
     foldl (\<lambda>pf i. replace_first (index_key i) (replacements ! i) pf) postfix
       [0..<length replacements]"

text \<open>The body of the loop over \<open>caseIndex\<close>, for one index.\<close>

definition inflect_case ::
  "bool \<Rightarrow> bool \<Rightarrow> (string \<times> string \<times> string) option \<Rightarrow> jstring list \<Rightarrow> jstring
     \<Rightarrow> string list \<Rightarrow> nat \<Rightarrow> jstring" where
  "inflect_case animate isUpper exception replacements prefix pattern caseIndex =
     (case (if caseIndex = 4 then exception else None) of
        Some e \<Rightarrow> capitalize (cz (snd (snd e)))
      | None \<Rightarrow>
          (let postfix = substitute replacements (cz (pattern ! caseIndex));
               postfix = (case indexOf 47 postfix of
                            None \<Rightarrow> postfix
                          | Some posSlash \<Rightarrow>
                              if animate then drop (posSlash + 1) postfix
                              else take posSlash postfix);
               result = fixAccents (prefix @ postfix)
           in if isUpper then capitalize result else result))"

text \<open>
  The loop over the patterns, up to its \<open>break\<close>: the first pattern that the gender lets
  through and that matches, with its split point.
\<close>

fun first_match ::
  "jstring option \<Rightarrow> jstring \<Rightarrow> jstring list \<Rightarrow> string list list
     \<Rightarrow> (error + (string list \<times> nat) option) \<times> jstring list" where
  "first_match gender baseWord replacements [] = (Inr None, replacements)"
| "first_match gender baseWord replacements (pattern # rest) =
     (if truthy gender \<and> Some (cz (pattern ! 0)) \<noteq> gender
      then first_match gender baseWord replacements rest
      else case match (cz (pattern ! 1)) baseWord replacements of
             (Inl e, replacements') \<Rightarrow> (Inl e, replacements')
           | (Inr None, replacements') \<Rightarrow> first_match gender baseWord replacements' rest
           | (Inr (Some left), replacements') \<Rightarrow> (Inr (Some (pattern, left)), replacements'))"

definition array_includes :: "string list \<Rightarrow> jstring \<Rightarrow> bool" where
  "array_includes ws w \<longleftrightarrow> list_ex (\<lambda>x. cz x = w) ws"

text \<open>
  The head of the loop over the words, from \<open>breakAccents\<close> to the end of the loop over the
  patterns: the gender after the three forcing lists, the exception, the base word, and
  what the loop over the patterns found.
\<close>

definition choose_pattern ::
  "jstring option \<Rightarrow> jstring list \<Rightarrow> jstring
     \<Rightarrow> (jstring option \<times> (string \<times> string \<times> string) option \<times> jstring)
         \<times> ((error + (string list \<times> nat) option) \<times> jstring list)" where
  "choose_pattern gender0 replacements word0 =
     (let word = breakAccents word0;
          wordLower = toLowerCase word;
          gender = (if gender0 = None then
                      (if array_includes forceM wordLower then Some (cz ''m'')
                       else if array_includes forceF wordLower then Some (cz ''f'')
                       else if array_includes forceS wordLower then Some (cz ''s'')
                       else None)
                    else gender0);
          exception = List.find (\<lambda>e. cz (fst e) = breakAccents wordLower) exceptions;
          baseWord = (case exception of Some e \<Rightarrow> cz (fst (snd e)) | None \<Rightarrow> word)
      in ((gender, exception, baseWord), first_match gender baseWord replacements patterns))"

text \<open>
  One round of the loop over the words. \<open>word[0].toUpperCase()\<close> throws a \<open>TypeError\<close> on
  the empty word, where \<open>word[0]\<close> is \<open>undefined\<close>. The round gives the objects pushed on
  \<open>inflected\<close> (one, or two when the pattern matched and left form 2 empty, since
  \<open>!inflectedWord[2]\<close> is then true as well) and the gender.
\<close>

definition inflect_word ::
  "bool \<Rightarrow> jstring option \<Rightarrow> jstring list \<Rightarrow> jstring
     \<Rightarrow> (error + forms list \<times> jstring option) \<times> jstring list" where
  "inflect_word animate gender0 replacements word0 =
     (case word0 of
        [] \<Rightarrow> (Inl TypeError, replacements)
      | c # _ \<Rightarrow>
         (let isUpper = ([c] = upper_cu c);
              word = breakAccents word0
          in case choose_pattern gender0 replacements word0 of
               ((gender, exception, baseWord), found) \<Rightarrow>
                 (case found of
                    (Inl e, replacements') \<Rightarrow> (Inl e, replacements')
                  | (Inr None, replacements') \<Rightarrow>
                      (Inr ([replicate 14 (Some word) @ [None]], gender), replacements')
                  | (Inr (Some (pattern, left)), replacements') \<Rightarrow>
                      (let prefix = take left baseWord;
                           inflectedWord = None # Some word0 #
                             map (\<lambda>caseIndex. Some (inflect_case animate isUpper exception
                                                       replacements' prefix pattern caseIndex))
                               [2..<15]
                       in (Inr (if inflectedWord ! 2 = Some []
                                then [inflectedWord, replicate 14 (Some word) @ [None]]
                                else [inflectedWord],
                                Some (cz (pattern ! 0))),
                           replacements')))))"

fun inflect_words ::
  "bool \<Rightarrow> jstring option \<Rightarrow> jstring list \<Rightarrow> forms list \<Rightarrow> jstring list
     \<Rightarrow> (error + forms list) \<times> jstring list" where
  "inflect_words animate gender replacements inflected [] = (Inr inflected, replacements)"
| "inflect_words animate gender replacements inflected (word # words) =
     (case inflect_word animate gender replacements word of
        (Inl e, replacements') \<Rightarrow> (Inl e, replacements')
      | (Inr (pushed, gender'), replacements') \<Rightarrow>
          inflect_words animate gender' replacements' (inflected @ pushed) words)"

text \<open>
  \<open>inflect(text, animate)\<close> on an instance whose array holds \<open>replacements\<close>: the returned
  array, or the exception, and what the instance holds afterwards.
\<close>

definition inflect :: "jstring list \<Rightarrow> jstring \<Rightarrow> bool \<Rightarrow> (error + forms) \<times> jstring list" where
  "inflect replacements text animate =
     (case inflect_words animate None replacements [] (rev (split_sp text)) of
        (Inl e, replacements') \<Rightarrow> (Inl e, replacements')
      | (Inr inflected, replacements') \<Rightarrow>
          (Inr (None # map (\<lambda>caseIndex. Some (join_sp (map (\<lambda>word. word ! caseIndex)
                                                         (rev inflected))))
                         [1..<15]),
           replacements'))"

text \<open>\<open>new Inflection().inflect(text, animate)\<close>: the constructor sets the array to \<open>[]\<close>.\<close>

definition inflect_new :: "jstring \<Rightarrow> bool \<Rightarrow> error + forms" where
  "inflect_new text animate = fst (inflect [] text animate)"

text \<open>The array an instance holds after a sequence of calls, whatever their outcomes.\<close>

definition after_calls :: "(jstring \<times> bool) list \<Rightarrow> jstring list" where
  "after_calls calls = foldl (\<lambda>replacements (text, animate). snd (inflect replacements text animate)) [] calls"


section \<open>Notions used by the properties\<close>

text \<open>\<open>result[k]\<close> of a call that returned; \<open>None\<close> where the call threw.\<close>

definition form_slot :: "nat \<Rightarrow> error + forms \<Rightarrow> jstring option" where
  "form_slot k outcome = (case outcome of Inl e \<Rightarrow> None | Inr result \<Rightarrow> result ! k)"

text \<open>
  A string holds one of the six sequences that \<open>breakAccents\<close> writes and \<open>fixAccents\<close>
  reads: U+010F, U+0165 or U+0148 followed by \<open>i\<close> or \<open>e\<close>.
\<close>

fun has_marker :: "jstring \<Rightarrow> bool" where
  "has_marker (a # b # r) =
     (((a = 271 \<or> a = 357 \<or> a = 328) \<and> (b = 105 \<or> b = 101)) \<or> has_marker (b # r))"
| "has_marker r = False"

text \<open>
  The gender and the array at the head of each round of the loop over the words, with the
  word of the round. The loop ends at the first round that throws.
\<close>

fun loop_states ::
  "bool \<Rightarrow> jstring option \<Rightarrow> jstring list \<Rightarrow> jstring list
     \<Rightarrow> (jstring option \<times> jstring list \<times> jstring) list" where
  "loop_states animate gender replacements [] = []"
| "loop_states animate gender replacements (word # words) =
     (gender, replacements, word) #
     (case inflect_word animate gender replacements word of
        (Inl e, replacements') \<Rightarrow> []
      | (Inr (pushed, gender'), replacements') \<Rightarrow>
          loop_states animate gender' replacements' words)"

text \<open>The objects that the round of a word pushes on \<open>inflected\<close>; none if the round throws.\<close>

definition round_objects ::
  "bool \<Rightarrow> jstring option \<times> jstring list \<times> jstring \<Rightarrow> forms list" where
  "round_objects animate round =
     (case round of (gender, replacements, word) \<Rightarrow>
        (case fst (inflect_word animate gender replacements word) of
           Inl e \<Rightarrow> []
         | Inr (pushed, gender') \<Rightarrow> pushed))"


text \<open>
  How many capturing groups a pattern has: this many entries of the array are stored anew
  by a match.
\<close>

fun is_group :: "elem \<Rightarrow> bool" where
  "is_group (Group cs) = True"
| "is_group (Lit c) = False"

definition group_count :: "jstring \<Rightarrow> nat" where
  "group_count spec =
     (if take 1 spec \<noteq> [45] then 0
      else case regex_parse Top (drop 1 spec) of
             None \<Rightarrow> 0
           | Some es \<Rightarrow> length (filter is_group es))"

text \<open>The characters that the groups of a pattern can capture, up to case.\<close>

fun class_chars :: "elem list \<Rightarrow> jchar list" where
  "class_chars [] = []"
| "class_chars (Group cs # es) = map canonicalize cs @ class_chars es"
| "class_chars (Lit c # es) = class_chars es"

definition parsed :: "jstring \<Rightarrow> elem list" where
  "parsed spec = (case regex_parse Top (drop 1 spec) of None \<Rightarrow> [] | Some es \<Rightarrow> es)"

definition digit_free :: "jchar \<Rightarrow> string list \<Rightarrow> bool" where
  "digit_free d pattern \<longleftrightarrow> list_all (\<lambda>caseIndex. d \<notin> set (cz (pattern ! caseIndex))) [2..<15]"

text \<open>
  A row whose form templates hold no digit beyond the groups of its own pattern, so that
  an entry left in the array by an earlier match is never read: no \<open>0\<close> and no \<open>1\<close> when
  the pattern has no group, no \<open>1\<close> when it has one group (which cannot capture a \<open>1\<close>
  either). No pattern has more than two groups.
\<close>

definition stale_free :: "string list \<Rightarrow> bool" where
  "stale_free pattern =
     (let n = group_count (cz (pattern ! 1)) in
      if n = 0 then digit_free 48 pattern \<and> digit_free 49 pattern
      else if n = 1 then
        digit_free 49 pattern \<and>
        49 \<notin> set (class_chars (parsed (cz (pattern ! 1))))
      else n = 2)"

text \<open>
  The one row that is not of this kind, and the row above it in the table that matches
  whenever it does.
\<close>

definition io_row :: "string list" where
  "io_row = [''s'', ''-io'', ''0a'', ''0u'', ''0'', ''0'', ''0u'', ''0em'', ''0a'', ''0i:'', ''0u*m'', ''0a'', ''0a'', ''0ii:ch'', ''0y'']"

definition o_row :: "string list" where
  "o_row = [''s'', ''-o'', ''a'', ''u'', ''o'', ''o'', ''u'', ''em'', ''a'', '''', ''u*m'', ''a'', ''a'', ''ech'', ''y'']"

text \<open>The first \<open>a\<close> of a list stands before every \<open>b\<close> of it.\<close>

fun stands_before :: "'a \<Rightarrow> 'a \<Rightarrow> 'a list \<Rightarrow> bool" where
  "stands_before a b [] = False"
| "stands_before a b (x # xs) =
     (if x = a then True else if x = b then False else stands_before a b xs)"

text \<open>The groups that a match of the pattern against the word captures.\<close>

definition groups_of :: "jstring \<Rightarrow> jstring \<Rightarrow> jstring list" where
  "groups_of spec word =
     (if take 1 spec \<noteq> [45] then []
      else case regex_parse Top (drop 1 spec) of
             None \<Rightarrow> []
           | Some es \<Rightarrow> (case regex_exec es word of None \<Rightarrow> [] | Some (left, groups) \<Rightarrow> groups))"

text \<open>A row whose pattern is a literal word or a regular expression that \<open>regex_parse\<close> reads.\<close>

definition in_fragment :: "string list \<Rightarrow> bool" where
  "in_fragment pattern \<longleftrightarrow>
     (if take 1 (cz (pattern ! 1)) \<noteq> [45] then True
      else regex_parse Top (drop 1 (cz (pattern ! 1))) \<noteq> None)"

lemma of_char_code:
  "of_char CHR ''a'' = (97::nat)" "of_char CHR ''b'' = (98::nat)" "of_char CHR ''c'' = (99::nat)"
  "of_char CHR ''d'' = (100::nat)" "of_char CHR ''e'' = (101::nat)"
  "of_char CHR ''f'' = (102::nat)" "of_char CHR ''g'' = (103::nat)"
  "of_char CHR ''h'' = (104::nat)" "of_char CHR ''i'' = (105::nat)"
  "of_char CHR ''j'' = (106::nat)" "of_char CHR ''k'' = (107::nat)"
  "of_char CHR ''l'' = (108::nat)" "of_char CHR ''m'' = (109::nat)"
  "of_char CHR ''n'' = (110::nat)" "of_char CHR ''o'' = (111::nat)"
  "of_char CHR ''p'' = (112::nat)" "of_char CHR ''q'' = (113::nat)"
  "of_char CHR ''r'' = (114::nat)" "of_char CHR ''s'' = (115::nat)"
  "of_char CHR ''t'' = (116::nat)" "of_char CHR ''u'' = (117::nat)"
  "of_char CHR ''v'' = (118::nat)" "of_char CHR ''w'' = (119::nat)"
  "of_char CHR ''x'' = (120::nat)" "of_char CHR ''y'' = (121::nat)"
  "of_char CHR ''z'' = (122::nat)" "of_char CHR ''A'' = (65::nat)"
  "of_char CHR ''B'' = (66::nat)" "of_char CHR ''C'' = (67::nat)" "of_char CHR ''D'' = (68::nat)"
  "of_char CHR ''E'' = (69::nat)" "of_char CHR ''F'' = (70::nat)" "of_char CHR ''G'' = (71::nat)"
  "of_char CHR ''H'' = (72::nat)" "of_char CHR ''I'' = (73::nat)" "of_char CHR ''J'' = (74::nat)"
  "of_char CHR ''K'' = (75::nat)" "of_char CHR ''L'' = (76::nat)" "of_char CHR ''M'' = (77::nat)"
  "of_char CHR ''N'' = (78::nat)" "of_char CHR ''O'' = (79::nat)" "of_char CHR ''P'' = (80::nat)"
  "of_char CHR ''Q'' = (81::nat)" "of_char CHR ''R'' = (82::nat)" "of_char CHR ''S'' = (83::nat)"
  "of_char CHR ''T'' = (84::nat)" "of_char CHR ''U'' = (85::nat)" "of_char CHR ''V'' = (86::nat)"
  "of_char CHR ''W'' = (87::nat)" "of_char CHR ''X'' = (88::nat)" "of_char CHR ''Y'' = (89::nat)"
  "of_char CHR ''Z'' = (90::nat)" "of_char CHR ''0'' = (48::nat)" "of_char CHR ''1'' = (49::nat)"
  "of_char CHR ''2'' = (50::nat)" "of_char CHR ''3'' = (51::nat)" "of_char CHR ''4'' = (52::nat)"
  "of_char CHR ''5'' = (53::nat)" "of_char CHR ''6'' = (54::nat)" "of_char CHR ''7'' = (55::nat)"
  "of_char CHR ''8'' = (56::nat)" "of_char CHR ''9'' = (57::nat)" "of_char CHR '' '' = (32::nat)"
  "of_char CHR ''-'' = (45::nat)" "of_char CHR ''('' = (40::nat)" "of_char CHR '')'' = (41::nat)"
  "of_char CHR ''['' = (91::nat)" "of_char CHR '']'' = (93::nat)" "of_char CHR ''/'' = (47::nat)"
  "of_char CHR '':'' = (58::nat)" "of_char CHR ''^'' = (94::nat)" "of_char CHR ''*'' = (42::nat)"
  by simp_all


section \<open>Evaluation\<close>

text \<open>
  The loop over the patterns is evaluated row by row: the rows that were not reached yet
  are left as they are.
\<close>

lemma first_match_cong:
  "g = g' \<Longrightarrow> w = w' \<Longrightarrow> r = r' \<Longrightarrow> first_match g w r ps = first_match g' w' r' ps"
  by simp

lemma upt_2_15: "[2..<15] = [2, 3, 4, 5, 6, 7, 8, 9, 10, 11, 12, 13, 14::nat]"
  by (simp add: upt_rec)

lemma upt_1_15: "[Suc 0..<15] = [1, 2, 3, 4, 5, 6, 7, 8, 9, 10, 11, 12, 13, 14::nat]"
  by (simp add: upt_rec)

lemma index_key_0: "index_key 0 = [48]"
  by (simp add: index_key.simps)

lemma index_key_1: "index_key (Suc 0) = [49]"
  by (simp add: index_key.simps)

lemma replicate_14: "replicate 14 x = [x, x, x, x, x, x, x, x, x, x, x, x, x, x]"
  by (simp add: eval_nat_numeral)

lemmas char_maps = toLowerCase_def toUpperCase_def lower_cu_def upper_cu_def canonicalize_def
  acute_def caron_def ring_def of_char_code

lemmas scan_simps = Let_def match_def regex_exec_def truthy_def syntax_char_def char_maps

lemmas word_simps = Let_def inflect_def inflect_word_def choose_pattern_def inflect_case_def
  substitute_def capitalize_def array_includes_def truthy_def forceM_def forceF_def forceS_def
  exceptions_def index_key_0 index_key_1 upt_2_15 upt_1_15 replicate_14 char_maps

lemmas choose_simps = Let_def choose_pattern_def array_includes_def forceM_def forceF_def
  forceS_def exceptions_def char_maps

lemmas slot_simps = form_slot_def inflect_new_def char_maps

section \<open>The calls that the properties look at\<close>

lemma scan_Novak:
  "first_match None (cz ''Nova:k'') [] patterns = (Inr (Some ([''m'', ''-([k])'', ''0u/0a'',
     ''0u/0ovi'', ''0/0a'', ''0u'', ''0u/0ovi'', ''0em'', ''0y/0ove:'', ''0u*'', ''0u*m'',
     ''0y'', ''0y/0ove:'', ''ci:ch'', ''0y''], 4)), [cz ''k''])"
  unfolding patterns_def
  by (simp cong: first_match_cong add: scan_simps del: of_char_Char)

lemma scan_ps:
  "first_match None (cz ''ps'') [] patterns = (Inr (Some ([''m'', ''-([dglmnpbtvzs])'',
     ''0u/0a'', ''0u/0ovi'', ''0/0a'', ''0e'', ''0u/0ovi'', ''0em'', ''0y/0ove:'', ''0u*'',
     ''0u*m'', ''0y'', ''0y/0ove:'', ''0ech'', ''0y''], 1)), [cz ''s''])"
  unfolding patterns_def
  by (simp cong: first_match_cong add: scan_simps del: of_char_Char)

lemma scan_my:
  "first_match None (cz ''my'') [] patterns = (Inr (Some ([''-'', ''my'', '''', '''', '''', '''', '''',
     '''', ''my'', ''na:s'', ''na:m'', ''na:s'', ''my'', ''na:s'', ''na:mi''], 0)), [])"
  unfolding patterns_def
  by (simp cong: first_match_cong add: scan_simps del: of_char_Char)

lemma scan_Heidi:
  "first_match None (cz ''Heid^i'') [] patterns = (Inr None, [])"
  unfolding patterns_def
  by (simp cong: first_match_cong add: scan_simps del: of_char_Char)

lemma scan_ludek:
  "first_match None (cz ''lud^ek'') [] patterns = (Inr (Some ([''m'', ''-([k])'', ''0u/0a'',
     ''0u/0ovi'', ''0/0a'', ''0u'', ''0u/0ovi'', ''0em'', ''0y/0ove:'', ''0u*'', ''0u*m'',
     ''0y'', ''0y/0ove:'', ''ci:ch'', ''0y''], 4)), [cz ''k''])"
  unfolding patterns_def
  by (simp cong: first_match_cong add: scan_simps del: of_char_Char)

lemma scan_Novakova:
  "first_match None (cz ''Nova:kova:'') [] patterns = (Inr (Some ([''f'', ''-a:'', ''e:'',
     ''e:'', ''ou'', ''a:'', ''e:'', ''ou'', ''e:'', ''y:ch'', ''y:m'', ''e:'', ''e:'',
     ''y:ch'', ''y:mi''], 7)), [])"
  unfolding patterns_def
  by (simp cong: first_match_cong add: scan_simps del: of_char_Char)

lemma scan_Jana_f:
  "first_match (Some (cz ''f'')) (cz ''Jana'') [] patterns = (Inr (Some ([''f'',
     ''-([tdbnvmp])a'', ''0y'', ''0e^'', ''0u'', ''0o'', ''0e^'', ''0ou'', ''0y'', ''0'',
     ''0a:m'', ''0y'', ''0y'', ''0a:ch'', ''0ami''], 2)), [cz ''n''])"
  unfolding patterns_def
  by (simp cong: first_match_cong add: scan_simps del: of_char_Char)

lemma inflect_Novak:
  "inflect [] (cz ''Nova:k'') False = (Inr [None, Some (cz ''Nova:k''), Some (cz ''Nova:ku''),
     Some (cz ''Nova:ku''), Some (cz ''Nova:k''), Some (cz ''Nova:ku''), Some (cz ''Nova:ku''),
     Some (cz ''Nova:kem''), Some (cz ''Nova:ky''), Some (cz ''Nova:ku*''),
     Some (cz ''Nova:ku*m''), Some (cz ''Nova:ky''), Some (cz ''Nova:ky''),
     Some (cz ''Nova:ci:ch''), Some (cz ''Nova:ky'')], [cz ''k''])"
  using scan_Novak
  by (simp add: word_simps del: of_char_Char)

lemma inflect_Novak_animate:
  "inflect [] (cz ''Nova:k'') True = (Inr [None, Some (cz ''Nova:k''), Some (cz ''Nova:0a''),
     Some (cz ''Nova:0ovi''), Some (cz ''Nova:0a''), Some (cz ''Nova:ku''),
     Some (cz ''Nova:0ovi''), Some (cz ''Nova:kem''), Some (cz ''Nova:0ove:''),
     Some (cz ''Nova:ku*''), Some (cz ''Nova:ku*m''), Some (cz ''Nova:ky''),
     Some (cz ''Nova:0ove:''), Some (cz ''Nova:ci:ch''), Some (cz ''Nova:ky'')], [cz ''k''])"
  using scan_Novak
  by (simp add: word_simps del: of_char_Char)

lemma inflect_pes:
  "inflect [] (cz ''pes'') False = (Inr [None, Some (cz ''pes''), Some (cz ''psu''),
     Some (cz ''psu''), Some (cz ''Psa''), Some (cz ''pse''), Some (cz ''psu''),
     Some (cz ''psem''), Some (cz ''psy''), Some (cz ''psu*''), Some (cz ''psu*m''),
     Some (cz ''psy''), Some (cz ''psy''), Some (cz ''psech''), Some (cz ''psy'')], [cz ''s''])"
  using scan_ps
  by (simp add: word_simps del: of_char_Char)

lemma inflect_my:
  "inflect [] (cz ''my'') False = (Inr [None, Some (cz ''my my''), Some (cz ''my ''),
     Some (cz ''my ''), Some (cz ''my ''), Some (cz ''my ''), Some (cz ''my ''),
     Some (cz ''my ''), Some (cz ''my my''), Some (cz ''my na:s''), Some (cz ''my na:m''),
     Some (cz ''my na:s''), Some (cz ''my my''), Some (cz ''my na:s''), Some (cz '' na:mi'')],
     [])"
  using scan_my
  by (simp add: word_simps del: of_char_Char)

lemma inflect_Heidi:
  "inflect [] (cz ''Heidi'') False = (Inr [None, Some (cz ''Heid^i''), Some (cz ''Heid^i''),
     Some (cz ''Heid^i''), Some (cz ''Heid^i''), Some (cz ''Heid^i''), Some (cz ''Heid^i''),
     Some (cz ''Heid^i''), Some (cz ''Heid^i''), Some (cz ''Heid^i''), Some (cz ''Heid^i''),
     Some (cz ''Heid^i''), Some (cz ''Heid^i''), Some (cz ''Heid^i''), Some (cz '''')], [])"
  using scan_Heidi
  by (simp add: word_simps del: of_char_Char)

lemma inflect_ludek:
  "inflect [] (cz ''lude^k'') False = (Inr [None, Some (cz ''lude^k''), Some (cz ''lude^ku''),
     Some (cz ''lude^ku''), Some (cz ''lude^k''), Some (cz ''lude^ku''), Some (cz ''lude^ku''),
     Some (cz ''lude^kem''), Some (cz ''lude^ky''), Some (cz ''lude^ku*''),
     Some (cz ''lude^ku*m''), Some (cz ''lude^ky''), Some (cz ''lude^ky''),
     Some (cz ''lude^ci:ch''), Some (cz ''lude^ky'')], [cz ''k''])"
  using scan_ludek
  by (simp add: word_simps del: of_char_Char)

lemma choose_Heidi:
  "choose_pattern None [] (cz ''Heidi'') = ((None, None, cz ''Heid^i''), Inr None, [])"
  using scan_Heidi
  by (simp add: choose_simps del: of_char_Char)

lemma choose_ludek:
  "choose_pattern None [] (cz ''lude^k'') = ((None, None, cz ''lud^ek''), Inr (Some ([''m'',
     ''-([k])'', ''0u/0a'', ''0u/0ovi'', ''0/0a'', ''0u'', ''0u/0ovi'', ''0em'', ''0y/0ove:'',
     ''0u*'', ''0u*m'', ''0y'', ''0y/0ove:'', ''ci:ch'', ''0y''], 4)), [cz ''k''])"
  using scan_ludek
  by (simp add: choose_simps del: of_char_Char)

lemma word_Novakova:
  "inflect_word False None [] (cz ''Nova:kova:'') = (Inr ([[None, Some (cz ''Nova:kova:''),
     Some (cz ''Nova:kove:''), Some (cz ''Nova:kove:''), Some (cz ''Nova:kovou''),
     Some (cz ''Nova:kova:''), Some (cz ''Nova:kove:''), Some (cz ''Nova:kovou''),
     Some (cz ''Nova:kove:''), Some (cz ''Nova:kovy:ch''), Some (cz ''Nova:kovy:m''),
     Some (cz ''Nova:kove:''), Some (cz ''Nova:kove:''), Some (cz ''Nova:kovy:ch''),
     Some (cz ''Nova:kovy:mi'')]], Some (cz ''f'')), [])"
  using scan_Novakova
  by (simp add: word_simps del: of_char_Char)

lemma choose_Jana_f:
  "choose_pattern (Some (cz ''f'')) [] (cz ''Jana'') = ((Some (cz ''f''), None, cz ''Jana''),
     Inr (Some ([''f'', ''-([tdbnvmp])a'', ''0y'', ''0e^'', ''0u'', ''0o'', ''0e^'', ''0ou'',
     ''0y'', ''0'', ''0a:m'', ''0y'', ''0y'', ''0a:ch'', ''0ami''], 2)), [cz ''n''])"
  using scan_Jana_f
  by (simp add: choose_simps del: of_char_Char)

lemma scan_Petra_m:
  "first_match (Some (cz ''m'')) (cz ''Petra'') [cz ''k''] patterns = (Inr (Some ([''m'',
     ''-a'', ''y'', ''ovi'', ''u'', ''o'', ''ovi'', ''ou'', ''ove:'', ''u*'', ''u*m'', ''y'',
     ''ove:'', ''ech'', ''y''], 4)), [cz ''k''])"
  unfolding patterns_def
  by (simp cong: first_match_cong add: scan_simps del: of_char_Char)

lemma scan_Petra:
  "first_match None (cz ''Petra'') [] patterns = (Inr (Some ([''f'', ''-([bdghkmnptvz])ra'',
     ''0ry'', ''0r^e'', ''0ru'', ''0ro'', ''0r^e'', ''0rou'', ''0ry'', ''0er'', ''0ra:m'',
     ''0ry'', ''0ry'', ''0ra:ch'', ''0rami''], 2)), [cz ''t''])"
  unfolding patterns_def
  by (simp cong: first_match_cong add: scan_simps del: of_char_Char)

lemma choose_Petra_m:
  "choose_pattern (Some (cz ''m'')) [cz ''k''] (cz ''Petra'') = ((Some (cz ''m''), None,
     cz ''Petra''), Inr (Some ([''m'', ''-a'', ''y'', ''ovi'', ''u'', ''o'', ''ovi'', ''ou'',
     ''ove:'', ''u*'', ''u*m'', ''y'', ''ove:'', ''ech'', ''y''], 4)), [cz ''k''])"
  using scan_Petra_m
  by (simp add: choose_simps del: of_char_Char)

lemma choose_Petra:
  "choose_pattern None [] (cz ''Petra'') = ((None, None, cz ''Petra''), Inr (Some ([''f'',
     ''-([bdghkmnptvz])ra'', ''0ry'', ''0r^e'', ''0ru'', ''0ro'', ''0r^e'', ''0rou'', ''0ry'',
     ''0er'', ''0ra:m'', ''0ry'', ''0ry'', ''0ra:ch'', ''0rami''], 2)), [cz ''t''])"
  using scan_Petra
  by (simp add: choose_simps del: of_char_Char)

lemma word_Novak:
  "inflect_word False None [] (cz ''Nova:k'') = (Inr ([[None, Some (cz ''Nova:k''),
     Some (cz ''Nova:ku''), Some (cz ''Nova:ku''), Some (cz ''Nova:k''), Some (cz ''Nova:ku''),
     Some (cz ''Nova:ku''), Some (cz ''Nova:kem''), Some (cz ''Nova:ky''),
     Some (cz ''Nova:ku*''), Some (cz ''Nova:ku*m''), Some (cz ''Nova:ky''),
     Some (cz ''Nova:ky''), Some (cz ''Nova:ci:ch''), Some (cz ''Nova:ky'')]],
     Some (cz ''m'')), [cz ''k''])"
  using scan_Novak
  by (simp add: word_simps del: of_char_Char)

lemma inflect_Petra_Novak:
  "inflect [] (cz ''Petra Nova:k'') False = (Inr [None, Some (cz ''Petra Nova:k''),
     Some (cz ''Petry Nova:ku''), Some (cz ''Petrovi Nova:ku''), Some (cz ''Petru Nova:k''),
     Some (cz ''Petro Nova:ku''), Some (cz ''Petrovi Nova:ku''), Some (cz ''Petrou Nova:kem''),
     Some (cz ''Petrove: Nova:ky''), Some (cz ''Petru* Nova:ku*''),
     Some (cz ''Petru*m Nova:ku*m''), Some (cz ''Petry Nova:ky''),
     Some (cz ''Petrove: Nova:ky''), Some (cz ''Petrech Nova:ci:ch''),
     Some (cz ''Petry Nova:ky'')], [cz ''k''])"
  using scan_Novak scan_Petra_m
  by (simp add: word_simps del: of_char_Char)

lemma inflect_Jana_Novakova:
  "inflect [] (cz ''Jana Nova:kova:'') False = (Inr [None, Some (cz ''Jana Nova:kova:''),
     Some (cz ''Jany Nova:kove:''), Some (cz ''Jane^ Nova:kove:''),
     Some (cz ''Janu Nova:kovou''), Some (cz ''Jano Nova:kova:''),
     Some (cz ''Jane^ Nova:kove:''), Some (cz ''Janou Nova:kovou''),
     Some (cz ''Jany Nova:kove:''), Some (cz ''Jan Nova:kovy:ch''),
     Some (cz ''Jana:m Nova:kovy:m''), Some (cz ''Jany Nova:kove:''),
     Some (cz ''Jany Nova:kove:''), Some (cz ''Jana:ch Nova:kovy:ch''),
     Some (cz ''Janami Nova:kovy:mi'')], [cz ''n''])"
  using scan_Novakova scan_Jana_f
  by (simp add: word_simps del: of_char_Char)

section \<open>The form slots\<close>

text \<open>
  C1. The claim is that slot 8 of the returned array holds the instrumental case, with
  \<open>Nova:kem\<close> for \<open>Nova:k\<close>. The array is indexed as the pattern rows are: slot 1 is the
  input and slot \<open>k\<close> comes from \<open>pattern[k]\<close>, so slot 8 holds the nominative plural
  \<open>Nova:ky\<close>.
\<close>

theorem slot_8_of_Novak_is_not_instrumental:
  "form_slot 8 (inflect_new (cz ''Nova:k'') False) \<noteq> Some (cz ''Nova:kem'')"
  using inflect_Novak
  by (simp add: slot_simps del: of_char_Char)

text \<open>
  C1, as the code has it. The instrumental case is slot 7, the one \<open>formatAttorneyText\<close>
  reads: \<open>Nova:kem\<close> for \<open>Nova:k\<close>, and \<open>psem\<close> for \<open>pes\<close>, built from the exception stem
  \<open>ps\<close>. Slot 8 holds \<open>Nova:ky\<close> and \<open>psy\<close>.
\<close>

theorem instrumental_is_slot_7:
  "form_slot 7 (inflect_new (cz ''Nova:k'') False) = Some (cz ''Nova:kem'')
   \<and> form_slot 7 (inflect_new (cz ''pes'') False) = Some (cz ''psem'')
   \<and> form_slot 8 (inflect_new (cz ''Nova:k'') False) = Some (cz ''Nova:ky'')
   \<and> form_slot 8 (inflect_new (cz ''pes'') False) = Some (cz ''psy'')"
  using inflect_Novak inflect_pes
  by (simp add: slot_simps del: of_char_Char)

section \<open>Exceptions\<close>

text \<open>
  Every regular expression of the table lies in the fragment that \<open>regex_parse\<close> reads, so
  the only exception of a call is the \<open>TypeError\<close> of an empty word.
\<close>

lemma patterns_in_fragment: "list_all in_fragment patterns"
  unfolding patterns_def
  by (simp add: in_fragment_def syntax_char_def char_maps del: of_char_Char)

lemma match_in_fragment: "in_fragment p \<Longrightarrow> fst (match (cz (p ! 1)) w r) \<noteq> Inl e"
  by (auto simp: in_fragment_def match_def split: if_splits option.splits prod.splits)

lemma first_match_no_error:
  "list_all in_fragment ps \<Longrightarrow> fst (first_match g w r ps) \<noteq> Inl e"
proof (induction ps arbitrary: r)
  case Nil
  then show ?case by simp
next
  case (Cons q ps)
  then have q: "in_fragment q" and ps: "list_all in_fragment ps" by simp_all
  obtain o1 s1 where m: "match (cz (q ! 1)) w r = (o1, s1)" by (cases "match (cz (q ! 1)) w r")
  from match_in_fragment[OF q, of w r] m have no: "\<And>x. o1 \<noteq> Inl x" by simp
  show ?case
  proof (cases "truthy g \<and> Some (cz (q ! 0)) \<noteq> g")
    case True
    with Cons.IH[OF ps] show ?thesis by simp
  next
    case False
    with m no Cons.IH[OF ps, of s1] show ?thesis
      by (cases o1) (auto split: option.splits)
  qed
qed

lemma inflect_word_error:
  "fst (inflect_word a g r w) = Inl e \<longleftrightarrow> w = [] \<and> e = TypeError"
proof (cases w)
  case Nil
  then show ?thesis by (auto simp: inflect_word_def)
next
  case (Cons c cs)
  obtain g1 exc base found where ch: "choose_pattern g r w = ((g1, exc, base), found)"
    by (metis prod_cases3 surj_pair)
  then have found: "found = first_match g1 base r patterns"
    by (auto simp: choose_pattern_def Let_def)
  obtain o1 s1 where f: "found = (o1, s1)" by (cases found)
  from found f have "fst (first_match g1 base r patterns) = o1" by (metis fst_conv)
  with first_match_no_error[OF patterns_in_fragment, of g1 base r]
  have "\<And>x. o1 \<noteq> Inl x" by metis
  with Cons ch f show ?thesis
    by (cases o1) (auto simp: inflect_word_def Let_def split: option.splits)
qed

lemma inflect_words_error:
  "fst (inflect_words a g r acc ws) = Inl e \<longleftrightarrow> e = TypeError \<and> [] \<in> set ws"
proof (induction ws arbitrary: g r acc)
  case Nil
  then show ?case by simp
next
  case (Cons w ws)
  obtain o1 s1 where i: "inflect_word a g r w = (o1, s1)" by (cases "inflect_word a g r w")
  show ?case
  proof (cases o1)
    case (Inl x)
    with i inflect_word_error[of a g r w x] have "w = []" "x = TypeError" by simp_all
    with i Inl show ?thesis by auto
  next
    case (Inr pg)
    obtain pushed g' where pg: "pg = (pushed, g')" by (cases pg)
    from i Inr inflect_word_error[of a g r w TypeError] have "w \<noteq> []" by auto
    with i Inr pg Cons.IH[of g' s1 "acc @ pushed"] show ?thesis by auto
  qed
qed

lemma inflect_throws_iff:
  "fst (inflect r t a) = Inl e \<longleftrightarrow> e = TypeError \<and> [] \<in> set (split_sp t)"
proof -
  obtain o1 s1 where i: "inflect_words a None r [] (rev (split_sp t)) = (o1, s1)"
    by (cases "inflect_words a None r [] (rev (split_sp t))")
  from inflect_words_error[of a None r "[]" "rev (split_sp t)" e] i
  have "o1 = Inl e \<longleftrightarrow> e = TypeError \<and> [] \<in> set (split_sp t)" by simp
  with i show ?thesis by (cases o1) (auto simp: inflect_def)
qed

text \<open>
  C2. The claim is that \<open>inflect\<close> returns normally on every string and that the empty
  string degrades to passthrough. On the empty string \<open>split\<close> gives one empty word, and
  \<open>word[0].toUpperCase()\<close> throws: the call ends in a \<open>TypeError\<close>, whatever the instance
  held and whatever the flag.
\<close>

theorem inflect_empty_string_throws:
  "fst (inflect replacements [] animate) = Inl TypeError"
  by (simp add: inflect_def inflect_word_def)

section \<open>A word that no pattern matches\<close>

text \<open>
  C3. The claim is that a word that matches no pattern is passed through unmodified in all
  14 slots. No pattern matches \<open>Heidi\<close>. The object pushed for it is spread from
  \<open>Array(14).fill(word)\<close>, which has the keys 0 to 13, so slot 14 is \<open>undefined\<close> and is joined
  as the empty string; and \<open>word\<close> is by then the output of \<open>breakAccents\<close>, so slot 1 holds
  \<open>Heid^i\<close> and not the input.
\<close>

theorem unmatched_word_Heidi:
  "snd (choose_pattern None [] (cz ''Heidi'')) = (Inr None, [])
   \<and> form_slot 14 (inflect_new (cz ''Heidi'') False) = Some (cz '''')
   \<and> form_slot 1 (inflect_new (cz ''Heidi'') False) = Some (cz ''Heid^i'')
   \<and> cz ''Heid^i'' \<noteq> cz ''Heidi''"
  using choose_Heidi inflect_Heidi
  by (simp add: slot_simps del: of_char_Char)

text \<open>
  C4. The claim is that slot 1 equals the input for every input. The pattern \<open>my\<close> matches
  the word \<open>my\<close> and leaves form 2 empty; \<open>!inflectedWord[2]\<close> is then true, a second object
  is pushed for the same word, and slot 1 holds the word twice.
\<close>

theorem slot_1_of_my:
  "form_slot 1 (inflect_new (cz ''my'') False) = Some (cz ''my my'')"
  using inflect_my
  by (simp add: slot_simps del: of_char_Char)

text \<open>
  C5. The claim is that no slot holds one of the sequences that \<open>breakAccents\<close> writes.
  \<open>Heidi\<close> holds the digraph \<open>di\<close> and matches no pattern; the object pushed for it is
  filled with the output of \<open>breakAccents\<close>, on which \<open>fixAccents\<close> is never called. Slot 7,
  the one the caller reads, holds \<open>Heid^i\<close>.
\<close>

theorem marker_left_in_Heidi:
  "form_slot 7 (inflect_new (cz ''Heidi'') False) = Some (cz ''Heid^i'')
   \<and> has_marker (cz ''Heid^i'')"
  using inflect_Heidi
  by (simp add: slot_simps del: of_char_Char)

section \<open>The exception table\<close>

text \<open>
  C7. The claim is that for every word of the exception table the stem is the one the table
  gives. \<open>lude^k\<close> is in the table, with the stem \<open>lud^k\<close>. The lookup compares the keys
  with \<open>breakAccents\<close> of the word, which holds \<open>d^e\<close> where the key holds \<open>de^\<close>: no
  exception is found, the base word is \<open>lud^ek\<close>, and the instrumental is \<open>lude^kem\<close>.
\<close>

theorem exception_of_ludek_is_not_found:
  "(''lude^k'', ''lud^k'', ''lud^ka'') \<in> set exceptions
   \<and> fst (choose_pattern None [] (cz ''lude^k'')) = (None, None, cz ''lud^ek'')
   \<and> form_slot 7 (inflect_new (cz ''lude^k'') False) = Some (cz ''lude^kem'')"
  using choose_ludek inflect_ludek
  by (simp add: slot_simps exceptions_def del: of_char_Char)

text \<open>
  C10. The claim is that for every word of the exception table whose stem matches a
  pattern, slot 4 is the third entry of the exception with a capital first letter. The stem
  \<open>lud^k\<close> of \<open>lude^k\<close> matches the pattern \<open>-([k])\<close>, yet slot 4 holds \<open>lude^k\<close>, not
  \<open>Lud^ka\<close>: the exception is not found (see C7).
\<close>

theorem slot_4_of_ludek:
  "fst (match (cz ''-([k])'') (cz ''lud^k'') []) = Inr (Some 3)
   \<and> form_slot 4 (inflect_new (cz ''lude^k'') False) = Some (cz ''lude^k'')
   \<and> capitalize (cz ''lud^ka'') = cz ''Lud^ka''"
  using inflect_ludek
  by (simp add: slot_simps match_def regex_exec_def syntax_char_def capitalize_def
      del: of_char_Char)

section \<open>The animate flag\<close>

text \<open>
  C8. The claim is that with \<open>animate\<close> set the alternative after the \<open>/\<close> is taken, with
  the captured groups substituted. \<open>postfix.replace(i, ...)\<close> replaces the first \<open>0\<close> only,
  which stands before the \<open>/\<close>: the alternative after it keeps its \<open>0\<close>. For \<open>Nova:k\<close> the
  template \<open>0u/0a\<close> gives \<open>Nova:0a\<close> in slot 2.
\<close>

theorem animate_keeps_the_digit:
  "form_slot 2 (inflect_new (cz ''Nova:k'') True) = Some (cz ''Nova:0a'')
   \<and> form_slot 2 (inflect_new (cz ''Nova:k'') False) = Some (cz ''Nova:ku'')"
  using inflect_Novak inflect_Novak_animate
  by (simp add: slot_simps del: of_char_Char)

section \<open>Gender propagation\<close>

lemma first_match_gender:
  "first_match g w r ps = (Inr (Some (p, left)), r') \<Longrightarrow> truthy g \<Longrightarrow> Some (cz (p ! 0)) = g"
proof (induction ps arbitrary: r)
  case Nil
  then show ?case by simp
next
  case (Cons q ps)
  show ?case
  proof (cases "truthy g \<and> Some (cz (q ! 0)) \<noteq> g")
    case True
    with Cons.prems have "first_match g w r ps = (Inr (Some (p, left)), r')" by simp
    with Cons.IH Cons.prems(2) show ?thesis by blast
  next
    case False
    obtain out r1 where m: "match (cz (q ! 1)) w r = (out, r1)" by (cases "match (cz (q ! 1)) w r")
    show ?thesis
    proof (cases out)
      case (Inl e)
      with Cons.prems False m show ?thesis by simp
    next
      case (Inr found)
      show ?thesis
      proof (cases found)
        case None
        with Cons.prems False m Inr have "first_match g w r1 ps = (Inr (Some (p, left)), r')"
          by simp
        with Cons.IH Cons.prems(2) show ?thesis by blast
      next
        case (Some l)
        with Cons.prems False m Inr have "p = q" by simp
        with False Cons.prems(2) show ?thesis by simp
      qed
    qed
  qed
qed

lemma choose_pattern_gender:
  "truthy g \<Longrightarrow> choose_pattern g r w = ((g1, exc, base), found) \<Longrightarrow> g1 = g"
  by (auto simp: choose_pattern_def Let_def truthy_def)

lemma choose_pattern_found:
  "truthy g \<Longrightarrow> snd (choose_pattern g r w) = (Inr (Some (p, left)), r') \<Longrightarrow> Some (cz (p ! 0)) = g"
proof -
  assume g: "truthy g" and s: "snd (choose_pattern g r w) = (Inr (Some (p, left)), r')"
  obtain g1 exc base found where c: "choose_pattern g r w = ((g1, exc, base), found)"
    by (metis prod_cases3 surj_pair)
  from g c have g1: "g1 = g" by (rule choose_pattern_gender)
  from c have "found = first_match g1 base r patterns"
    by (auto simp: choose_pattern_def Let_def)
  with s c g1 have "first_match g base r patterns = (Inr (Some (p, left)), r')" by simp
  with g show ?thesis by (rule first_match_gender[rotated])
qed

lemma inflect_word_keeps_gender:
  assumes "truthy g" and "inflect_word a g r w = (Inr (pushed, g'), r')"
  shows "g' = g"
proof (cases w)
  case Nil
  with assms(2) show ?thesis by (simp add: inflect_word_def)
next
  case (Cons c cs)
  obtain g1 exc base found where c: "choose_pattern g r w = ((g1, exc, base), found)"
    by (metis prod_cases3 surj_pair)
  from assms(1) c have g1: "g1 = g" by (rule choose_pattern_gender)
  obtain out r1 where f: "found = (out, r1)" by (cases found)
  show ?thesis
  proof (cases out)
    case (Inl e)
    with assms(2) Cons c f show ?thesis by (simp add: inflect_word_def Let_def)
  next
    case (Inr sel)
    show ?thesis
    proof (cases sel)
      case None
      with assms(2) Cons c f Inr g1 show ?thesis by (simp add: inflect_word_def Let_def)
    next
      case (Some pl)
      obtain p left where pl: "pl = (p, left)" by (cases pl)
      from c f Inr Some pl have "snd (choose_pattern g r w) = (Inr (Some (p, left)), r1)" by simp
      with assms(1) have "Some (cz (p ! 0)) = g" by (rule choose_pattern_found)
      moreover from assms(2) Cons c f Inr Some pl have "g' = Some (cz (p ! 0))"
        by (simp add: inflect_word_def Let_def)
      ultimately show ?thesis by simp
    qed
  qed
qed

lemma loop_states_gender:
  "truthy g \<Longrightarrow> (g', r', w') \<in> set (loop_states a g r ws) \<Longrightarrow> g' = g"
proof (induction ws arbitrary: r)
  case Nil
  then show ?case by simp
next
  case (Cons w ws)
  obtain out r1 where i: "inflect_word a g r w = (out, r1)" by (cases "inflect_word a g r w")
  show ?case
  proof (cases out)
    case (Inl e)
    with Cons.prems i show ?thesis by simp
  next
    case (Inr pg)
    obtain pushed g1 where pg: "pg = (pushed, g1)" by (cases pg)
    from Cons.prems(1) i Inr pg have "g1 = g" by (simp add: inflect_word_keeps_gender)
    with Cons.prems i Inr pg have "(g', r', w') = (g, r, w) \<or> (g', r', w') \<in> set (loop_states a g r1 ws)"
      by simp
    with Cons.IH Cons.prems(1) show ?thesis by blast
  qed
qed

lemma loop_states_suffix:
  "loop_states a g0 r0 ws = pre @ (g, r, w) # post
     \<Longrightarrow> \<exists>ws'. (g, r, w) # post = loop_states a g r ws'"
proof (induction pre arbitrary: g0 r0 ws)
  case Nil
  then have "(g, r, w) # post = loop_states a g r ws" by (cases ws) auto
  then show ?case ..
next
  case (Cons y pre)
  then obtain v vs where ws: "ws = v # vs" by (cases ws) auto
  obtain out r1 where i: "inflect_word a g0 r0 v = (out, r1)" by (cases "inflect_word a g0 r0 v")
  show ?case
  proof (cases out)
    case (Inl e)
    with Cons.prems ws i show ?thesis by simp
  next
    case (Inr pg)
    obtain pushed g1 where pg: "pg = (pushed, g1)" by (cases pg)
    from Cons.prems ws i Inr pg have "loop_states a g1 r1 vs = pre @ (g, r, w) # post" by simp
    then show ?thesis by (rule Cons.IH)
  qed
qed

subsection \<open>The rounds of a call\<close>

text \<open>
  What the loop over the words of \<open>inflect\<close> collects is what the rounds of \<open>loop_states\<close>
  push, in their order, and there is one round for each word.
\<close>

lemma inflect_words_rounds:
  "fst (inflect_words a g r acc ws) = Inr out \<Longrightarrow>
     out = acc @ concat (map (round_objects a) (loop_states a g r ws))
     \<and> map (\<lambda>(g, r, w). w) (loop_states a g r ws) = ws"
proof (induction ws arbitrary: g r acc)
  case Nil
  then show ?case by simp
next
  case (Cons w ws)
  obtain o1 s1 where i: "inflect_word a g r w = (o1, s1)" by (cases "inflect_word a g r w")
  show ?case
  proof (cases o1)
    case (Inl e)
    with Cons.prems i show ?thesis by simp
  next
    case (Inr pg)
    obtain pushed g' where pg: "pg = (pushed, g')" by (cases pg)
    from Cons.prems i Inr pg have "fst (inflect_words a g' s1 (acc @ pushed) ws) = Inr out"
      by simp
    from Cons.IH[OF this] i Inr pg show ?thesis
      by (simp add: round_objects_def)
  qed
qed

lemma inflect_rounds:
  assumes "fst (inflect r0 t a) = Inr result"
  shows "result = None # map (\<lambda>caseIndex. Some (join_sp (map (\<lambda>object. object ! caseIndex)
                     (rev (concat (map (round_objects a)
                                     (loop_states a None r0 (rev (split_sp t))))))))) [1..<15]
         \<and> map (\<lambda>(g, r, w). w) (loop_states a None r0 (rev (split_sp t))) = rev (split_sp t)"
proof -
  obtain o1 s1 where i: "inflect_words a None r0 [] (rev (split_sp t)) = (o1, s1)"
    by (cases "inflect_words a None r0 [] (rev (split_sp t))")
  show ?thesis
  proof (cases o1)
    case (Inl e)
    with assms i show ?thesis by (simp add: inflect_def)
  next
    case (Inr inflected)
    with i have "fst (inflect_words a None r0 [] (rev (split_sp t))) = Inr inflected" by simp
    from inflect_words_rounds[OF this] assms i Inr show ?thesis
      by (simp add: inflect_def)
  qed
qed

text \<open>
  C6. Take a call of \<open>inflect\<close> that returns. Its result is assembled from the objects that
  the rounds of the loop over the words push, one round for each word of the text, from the
  last word to the first. Once the loop reaches a round with an established gender \<open>g\<close>
  (set by the pattern of a word processed before, or by a forcing list), every round from
  there on runs with the gender \<open>g\<close>, and the pattern that the loop over the patterns stops
  at, if any, is a pattern of gender \<open>g\<close>. Established is what the code tests with
  \<open>gender && ...\<close>: neither \<open>null\<close> nor the empty string.
\<close>

theorem gender_propagation:
  assumes "fst (inflect replacements0 text animate) = Inr result"
    and "loop_states animate None replacements0 (rev (split_sp text)) = pre @ (g, r, w) # post"
    and "truthy g"
    and "(g', r', w') \<in> set ((g, r, w) # post)"
  shows "result = None # map (\<lambda>caseIndex. Some (join_sp (map (\<lambda>object. object ! caseIndex)
                     (rev (concat (map (round_objects animate) (pre @ (g, r, w) # post)))))))
                   [1..<15]
    \<and> map (\<lambda>(g, r, w). w) (pre @ (g, r, w) # post) = rev (split_sp text)
    \<and> g' = g
    \<and> (\<forall>p left r''. snd (choose_pattern g' r' w') = (Inr (Some (p, left)), r'')
          \<longrightarrow> Some (cz (p ! 0)) = g)"
proof -
  from inflect_rounds[OF assms(1)] assms(2)
  have made: "result = None # map (\<lambda>caseIndex. Some (join_sp (map (\<lambda>object. object ! caseIndex)
                     (rev (concat (map (round_objects animate) (pre @ (g, r, w) # post)))))))
                   [1..<15]"
    and all_words: "map (\<lambda>(g, r, w). w) (pre @ (g, r, w) # post) = rev (split_sp text)"
    by simp_all
  from assms(2) obtain ws' where "(g, r, w) # post = loop_states animate g r ws'"
    using loop_states_suffix by blast
  with assms(3,4) have g': "g' = g" using loop_states_gender by metis
  with assms(3) have "\<forall>p left r''. snd (choose_pattern g' r' w') = (Inr (Some (p, left)), r'')
          \<longrightarrow> Some (cz (p ! 0)) = g"
    using choose_pattern_found by blast
  with made all_words g' show ?thesis by blast
qed

text \<open>
  For \<open>Petra Nova:k\<close> the first round takes \<open>Nova:k\<close>, which the masculine pattern \<open>-([k])\<close>
  matches; the round of \<open>Petra\<close> runs with the gender \<open>m\<close> and stops at the masculine pattern
  \<open>-a\<close>, where with no gender it would stop at the feminine pattern \<open>-([bdghkmnptvz])ra\<close>:
  the call gives \<open>Petrovi Nova:ku\<close> in slot 3. For \<open>Jana Nova:kova:\<close> the first round takes
  \<open>Nova:kova:\<close>, which the feminine pattern \<open>-a:\<close> matches; the round of \<open>Jana\<close> runs with
  the gender \<open>f\<close> and stops at the feminine pattern \<open>-([tdbnvmp])a\<close>.
\<close>

theorem gender_propagation_witness:
  "fst (inflect [] (cz ''Petra Nova:k'') False) = Inr [None, Some (cz ''Petra Nova:k''),
     Some (cz ''Petry Nova:ku''), Some (cz ''Petrovi Nova:ku''), Some (cz ''Petru Nova:k''),
     Some (cz ''Petro Nova:ku''), Some (cz ''Petrovi Nova:ku''), Some (cz ''Petrou Nova:kem''),
     Some (cz ''Petrove: Nova:ky''), Some (cz ''Petru* Nova:ku*''),
     Some (cz ''Petru*m Nova:ku*m''), Some (cz ''Petry Nova:ky''),
     Some (cz ''Petrove: Nova:ky''), Some (cz ''Petrech Nova:ci:ch''),
     Some (cz ''Petry Nova:ky'')]
   \<and> loop_states False None [] (rev (split_sp (cz ''Petra Nova:k'')))
       = [(None, [], cz ''Nova:k'')] @ (Some (cz ''m''), [cz ''k''], cz ''Petra'') # []
   \<and> truthy (Some (cz ''m''))
   \<and> (Some (cz ''m''), [cz ''k''], cz ''Petra'')
       \<in> set ((Some (cz ''m''), [cz ''k''], cz ''Petra'') # [])
   \<and> snd (choose_pattern (Some (cz ''m'')) [cz ''k''] (cz ''Petra''))
       = (Inr (Some ([''m'', ''-a'', ''y'', ''ovi'', ''u'', ''o'', ''ovi'', ''ou'', ''ove:'', ''u*'',
            ''u*m'', ''y'', ''ove:'', ''ech'', ''y''], 4)), [cz ''k''])
   \<and> Some (cz ([''m'', ''-a'', ''y'', ''ovi'', ''u'', ''o'', ''ovi'', ''ou'', ''ove:'', ''u*'',
            ''u*m'', ''y'', ''ove:'', ''ech'', ''y''] ! 0)) = Some (cz ''m'')
   \<and> snd (choose_pattern None [] (cz ''Petra''))
       = (Inr (Some ([''f'', ''-([bdghkmnptvz])ra'', ''0ry'', ''0r^e'', ''0ru'', ''0ro'', ''0r^e'',
            ''0rou'', ''0ry'', ''0er'', ''0ra:m'', ''0ry'', ''0ry'', ''0ra:ch'', ''0rami''], 2)),
          [cz ''t''])
   \<and> fst (inflect [] (cz ''Jana Nova:kova:'') False) = Inr [None, Some (cz ''Jana Nova:kova:''),
     Some (cz ''Jany Nova:kove:''), Some (cz ''Jane^ Nova:kove:''),
     Some (cz ''Janu Nova:kovou''), Some (cz ''Jano Nova:kova:''),
     Some (cz ''Jane^ Nova:kove:''), Some (cz ''Janou Nova:kovou''),
     Some (cz ''Jany Nova:kove:''), Some (cz ''Jan Nova:kovy:ch''),
     Some (cz ''Jana:m Nova:kovy:m''), Some (cz ''Jany Nova:kove:''),
     Some (cz ''Jany Nova:kove:''), Some (cz ''Jana:ch Nova:kovy:ch''),
     Some (cz ''Janami Nova:kovy:mi'')]
   \<and> loop_states False None [] (rev (split_sp (cz ''Jana Nova:kova:'')))
       = [(None, [], cz ''Nova:kova:'')] @ (Some (cz ''f''), [], cz ''Jana'') # []
   \<and> truthy (Some (cz ''f''))
   \<and> (Some (cz ''f''), [], cz ''Jana'') \<in> set ((Some (cz ''f''), [], cz ''Jana'') # [])
   \<and> snd (choose_pattern (Some (cz ''f'')) [] (cz ''Jana''))
       = (Inr (Some ([''f'', ''-([tdbnvmp])a'', ''0y'', ''0e^'', ''0u'', ''0o'', ''0e^'', ''0ou'',
            ''0y'', ''0'', ''0a:m'', ''0y'', ''0y'', ''0a:ch'', ''0ami''], 2)), [cz ''n''])
   \<and> Some (cz ([''f'', ''-([tdbnvmp])a'', ''0y'', ''0e^'', ''0u'', ''0o'', ''0e^'', ''0ou'',
            ''0y'', ''0'', ''0a:m'', ''0y'', ''0y'', ''0a:ch'', ''0ami''] ! 0)) = Some (cz ''f'')"
proof -
  have returns: "fst (inflect [] (cz ''Petra Nova:k'') False) = Inr [None,
     Some (cz ''Petra Nova:k''),
     Some (cz ''Petry Nova:ku''), Some (cz ''Petrovi Nova:ku''), Some (cz ''Petru Nova:k''),
     Some (cz ''Petro Nova:ku''), Some (cz ''Petrovi Nova:ku''), Some (cz ''Petrou Nova:kem''),
     Some (cz ''Petrove: Nova:ky''), Some (cz ''Petru* Nova:ku*''),
     Some (cz ''Petru*m Nova:ku*m''), Some (cz ''Petry Nova:ky''),
     Some (cz ''Petrove: Nova:ky''), Some (cz ''Petrech Nova:ci:ch''),
     Some (cz ''Petry Nova:ky'')]"
    by (simp only: inflect_Petra_Novak fst_conv)
  have states: "loop_states False None [] (rev (split_sp (cz ''Petra Nova:k'')))
       = [(None, [], cz ''Nova:k'')] @ (Some (cz ''m''), [cz ''k''], cz ''Petra'') # []"
    using word_Novak
    by (simp add: char_maps del: of_char_Char split: prod.splits sum.splits)
  have established: "truthy (Some (cz ''m''))"
    by (simp add: truthy_def char_maps del: of_char_Char)
  have round: "(Some (cz ''m''), [cz ''k''], cz ''Petra'')
       \<in> set ((Some (cz ''m''), [cz ''k''], cz ''Petra'') # [])"
    by simp
  have found: "snd (choose_pattern (Some (cz ''m'')) [cz ''k''] (cz ''Petra''))
       = (Inr (Some ([''m'', ''-a'', ''y'', ''ovi'', ''u'', ''o'', ''ovi'', ''ou'', ''ove:'', ''u*'',
            ''u*m'', ''y'', ''ove:'', ''ech'', ''y''], 4)), [cz ''k''])"
    by (simp only: choose_Petra_m snd_conv)
  have alone: "snd (choose_pattern None [] (cz ''Petra''))
       = (Inr (Some ([''f'', ''-([bdghkmnptvz])ra'', ''0ry'', ''0r^e'', ''0ru'', ''0ro'', ''0r^e'',
            ''0rou'', ''0ry'', ''0er'', ''0ra:m'', ''0ry'', ''0ry'', ''0ra:ch'', ''0rami''], 2)),
          [cz ''t''])"
    by (simp only: choose_Petra snd_conv)
  from gender_propagation [OF returns states established round] found
  have masculine: "Some (cz ([''m'', ''-a'', ''y'', ''ovi'', ''u'', ''o'', ''ovi'', ''ou'', ''ove:'',
            ''u*'', ''u*m'', ''y'', ''ove:'', ''ech'', ''y''] ! 0)) = Some (cz ''m'')"
    by blast
  have returns': "fst (inflect [] (cz ''Jana Nova:kova:'') False) = Inr [None,
     Some (cz ''Jana Nova:kova:''),
     Some (cz ''Jany Nova:kove:''), Some (cz ''Jane^ Nova:kove:''),
     Some (cz ''Janu Nova:kovou''), Some (cz ''Jano Nova:kova:''),
     Some (cz ''Jane^ Nova:kove:''), Some (cz ''Janou Nova:kovou''),
     Some (cz ''Jany Nova:kove:''), Some (cz ''Jan Nova:kovy:ch''),
     Some (cz ''Jana:m Nova:kovy:m''), Some (cz ''Jany Nova:kove:''),
     Some (cz ''Jany Nova:kove:''), Some (cz ''Jana:ch Nova:kovy:ch''),
     Some (cz ''Janami Nova:kovy:mi'')]"
    by (simp only: inflect_Jana_Novakova fst_conv)
  have states': "loop_states False None [] (rev (split_sp (cz ''Jana Nova:kova:'')))
     = [(None, [], cz ''Nova:kova:'')] @ (Some (cz ''f''), [], cz ''Jana'') # []"
    using word_Novakova
    by (simp add: char_maps del: of_char_Char split: prod.splits sum.splits)
  have established': "truthy (Some (cz ''f''))"
    by (simp add: truthy_def char_maps del: of_char_Char)
  have round': "(Some (cz ''f''), [], cz ''Jana'') \<in> set ((Some (cz ''f''), [], cz ''Jana'') # [])"
    by simp
  have found': "snd (choose_pattern (Some (cz ''f'')) [] (cz ''Jana''))
       = (Inr (Some ([''f'', ''-([tdbnvmp])a'', ''0y'', ''0e^'', ''0u'', ''0o'', ''0e^'', ''0ou'',
            ''0y'', ''0'', ''0a:m'', ''0y'', ''0y'', ''0a:ch'', ''0ami''], 2)), [cz ''n''])"
    by (simp only: choose_Jana_f snd_conv)
  from gender_propagation [OF returns' states' established' round'] found'
  have feminine: "Some (cz ([''f'', ''-([tdbnvmp])a'', ''0y'', ''0e^'', ''0u'', ''0o'', ''0e^'', ''0ou'',
            ''0y'', ''0'', ''0a:m'', ''0y'', ''0y'', ''0a:ch'', ''0ami''] ! 0)) = Some (cz ''f'')"
    by blast
  from returns states established round found masculine alone
    returns' states' established' round' found' feminine
  show ?thesis by (intro conjI)
qed

section \<open>What an earlier call leaves behind\<close>

lemma stands_before_cong:
  "a = a' \<Longrightarrow> b = b' \<Longrightarrow> stands_before a b ps = stands_before a' b' ps"
  by simp

lemma o_row_before_io_row: "stands_before o_row io_row patterns"
  unfolding patterns_def o_row_def io_row_def
  by (simp cong: stands_before_cong)

lemma patterns_stale_free: "list_all (\<lambda>p. p = io_row \<or> stale_free p) patterns"
  unfolding patterns_def io_row_def
  by (simp add: stale_free_def group_count_def parsed_def digit_free_def syntax_char_def upt_2_15 Let_def
      char_maps del: of_char_Char)

subsection \<open>What a match stores\<close>

lemma match_fst: "fst (match spec w r) = fst (match spec w [])"
  by (simp add: match_def split: option.splits prod.splits)

lemma match_fail: "match spec w r = (out, r') \<Longrightarrow> \<forall>l. out \<noteq> Inr (Some l) \<Longrightarrow> r' = r"
  by (auto simp: match_def split: if_splits option.splits prod.splits)

lemma match_stores:
  "match spec w r = (Inr (Some l), r')
     \<Longrightarrow> r' = rev (groups_of spec w) @ drop (length (groups_of spec w)) r"
  by (auto simp: match_def groups_of_def split: if_splits option.splits prod.splits)

lemma captures_groups:
  "elems_match es xs \<Longrightarrow>
     length (captures es xs) = length (filter is_group es) \<and>
     (\<forall>g\<in>set (captures es xs). \<exists>c. g = [c] \<and> canonicalize c \<in> set (class_chars es))"
proof (induction es xs rule: elems_match.induct)
  fix e es c w
  assume ih: "elem_matches e c \<Longrightarrow> elems_match es w \<Longrightarrow>
     length (captures es w) = length (filter is_group es) \<and>
     (\<forall>g\<in>set (captures es w). \<exists>c. g = [c] \<and> canonicalize c \<in> set (class_chars es))"
    and m: "elems_match (e # es) (c # w)"
  from m have ec: "elem_matches e c" and rest: "elems_match es w"
    by (simp_all split: if_splits)
  from ih[OF ec rest] ec
  show "length (captures (e # es) (c # w)) = length (filter is_group (e # es)) \<and>
     (\<forall>g\<in>set (captures (e # es) (c # w)).
         \<exists>c. g = [c] \<and> canonicalize c \<in> set (class_chars (e # es)))"
    by (cases e) (auto simp: list_ex_iff)
qed simp_all

lemma groups_of_count:
  "match spec w r = (Inr (Some l), r') \<Longrightarrow> length (groups_of spec w) = group_count spec"
  by (auto simp: match_def groups_of_def group_count_def regex_exec_def captures_groups
      split: if_splits option.splits prod.splits)

lemma groups_of_chars:
  "match spec w r = (Inr (Some l), r') \<Longrightarrow> g \<in> set (groups_of spec w)
     \<Longrightarrow> \<exists>c. g = [c] \<and> canonicalize c \<in> set (class_chars (parsed spec))"
  by (auto simp: match_def groups_of_def parsed_def regex_exec_def
      split: if_splits option.splits prod.splits dest: captures_groups)

subsection \<open>Substitution into a template\<close>

lemma replace_first_absent: "d \<notin> set s \<Longrightarrow> replace_first [d] rep s = s"
  by (induction s) auto

lemma set_replace_first: "set (replace_first pat rep s) \<subseteq> set s \<union> set rep"
proof (induction s)
  case Nil
  then show ?case by auto
next
  case (Cons c cs)
  have "set (drop (length pat) (c # cs)) \<subseteq> set (c # cs)" by (rule set_drop_subset)
  with Cons show ?case by auto
qed

lemma substitute_0: "substitute [] t = t"
  by (simp add: substitute_def)

lemma substitute_1: "substitute [x] t = replace_first [48] x t"
  by (simp add: substitute_def index_key_0)

lemma substitute_2: "substitute [x, y] t = replace_first [49] y (replace_first [48] x t)"
  by (simp add: substitute_def index_key_0 index_key_1)

lemma at_most_two: "length r \<le> 2 \<Longrightarrow> r = [] \<or> (\<exists>x. r = [x]) \<or> (\<exists>x y. r = [x, y])"
proof (cases r)
  case Nil
  then show ?thesis by simp
next
  case (Cons x xs)
  assume "length r \<le> 2"
  with Cons have "length xs \<le> 1" by simp
  then have "xs = [] \<or> (\<exists>y. xs = [y])" by (cases xs) auto
  with Cons show ?thesis by auto
qed

lemma canonicalize_49: "canonicalize 49 = 49"
  by (simp add: canonicalize_def)

text \<open>
  For a row that is \<open>stale_free\<close>, what the array held before the match makes no difference
  to the substitution.
\<close>

lemma substitute_stale_free:
  assumes sf: "stale_free p"
    and len: "length r \<le> 2"
    and cnt: "length gs = group_count (cz (p ! 1))"
    and chars: "\<forall>g\<in>set gs. \<exists>c. g = [c] \<and> canonicalize c \<in> set (class_chars (parsed (cz (p ! 1))))"
    and k: "k \<in> set [2..<15]"
  shows "substitute (rev gs @ drop (length gs) r) (cz (p ! k)) = substitute (rev gs) (cz (p ! k))"
proof -
  let ?t = "cz (p ! k)"
  let ?n = "group_count (cz (p ! 1))"
  have r_cases: "r = [] \<or> (\<exists>x. r = [x]) \<or> (\<exists>x y. r = [x, y])"
    using len by (rule at_most_two)
  have "?n = 0 \<or> ?n = 1 \<or> ?n = 2"
    using sf by (auto simp: stale_free_def Let_def split: if_splits)
  then show ?thesis
  proof (elim disjE)
    assume zero: "?n = 0"
    with cnt have gs: "gs = []" by simp
    from sf zero k have d: "48 \<notin> set ?t" "49 \<notin> set ?t"
      by (auto simp: stale_free_def Let_def digit_free_def list_all_iff)
    from r_cases gs d show ?thesis
      by (auto simp: substitute_0 substitute_1 substitute_2 replace_first_absent)
  next
    assume one: "?n = 1"
    with cnt obtain g where gs: "gs = [g]" by (cases gs) auto
    with chars obtain c where c: "g = [c]" "canonicalize c \<in> set (class_chars (parsed (cz (p ! 1))))"
      by auto
    from sf one k have d: "49 \<notin> set ?t" "49 \<notin> set (class_chars (parsed (cz (p ! 1))))"
      by (auto simp: stale_free_def Let_def digit_free_def list_all_iff)
    from c(2) d(2) have "c \<noteq> 49" using canonicalize_49 by metis
    with d(1) set_replace_first[of "[48]" "[c]" ?t] have "49 \<notin> set (replace_first [48] [c] ?t)"
      by auto
    then have keep: "replace_first [49] y (replace_first [48] [c] ?t) = replace_first [48] [c] ?t" for y
      by (rule replace_first_absent)
    from r_cases gs c(1) keep show ?thesis
      by (auto simp: substitute_1 substitute_2)
  next
    assume two: "?n = 2"
    with cnt len show ?thesis by simp
  qed
qed

subsection \<open>The loop over the patterns\<close>

lemma first_match_fst:
  "fst (first_match g w r1 ps) = fst (first_match g w r2 ps)"
proof (induction ps arbitrary: r1 r2)
  case Nil
  then show ?case by simp
next
  case (Cons q ps)
  obtain o1 s1 where m1: "match (cz (q ! 1)) w r1 = (o1, s1)" by (cases "match (cz (q ! 1)) w r1")
  obtain o2 s2 where m2: "match (cz (q ! 1)) w r2 = (o2, s2)" by (cases "match (cz (q ! 1)) w r2")
  from m1 m2 match_fst[of "cz (q ! 1)" w r1] match_fst[of "cz (q ! 1)" w r2] have o: "o1 = o2"
    by simp
  show ?case
  proof (cases "truthy g \<and> Some (cz (q ! 0)) \<noteq> g")
    case True
    then show ?thesis using Cons.IH by simp
  next
    case False
    then show ?thesis
      using m1 m2 o Cons.IH[of s1 s2] by (auto split: sum.splits option.splits)
  qed
qed

lemma first_match_unmatched:
  "first_match g w r ps = (out, r') \<Longrightarrow> \<forall>p l. out \<noteq> Inr (Some (p, l)) \<Longrightarrow> r' = r"
proof (induction ps arbitrary: r)
  case Nil
  then show ?case by simp
next
  case (Cons q ps)
  obtain o1 s1 where m: "match (cz (q ! 1)) w r = (o1, s1)" by (cases "match (cz (q ! 1)) w r")
  show ?case
  proof (cases "truthy g \<and> Some (cz (q ! 0)) \<noteq> g")
    case True
    with Cons.prems have "first_match g w r ps = (out, r')" by simp
    with Cons.IH Cons.prems(2) show ?thesis by blast
  next
    case False
    show ?thesis
    proof (cases o1)
      case (Inl e)
      with Cons.prems False m have "r' = s1" by simp
      moreover from m Inl have "s1 = r" by (auto dest: match_fail)
      ultimately show ?thesis by simp
    next
      case (Inr found)
      show ?thesis
      proof (cases found)
        case None
        with m Inr have "s1 = r" by (auto dest: match_fail)
        with Cons.prems False m Inr None have "first_match g w r ps = (out, r')" by simp
        with Cons.IH Cons.prems(2) show ?thesis by blast
      next
        case (Some l)
        with Cons.prems False m Inr show ?thesis by auto
      qed
    qed
  qed
qed

text \<open>
  The pattern at which the loop stops is a row of the table that the gender lets through
  and that matches; the array is the one this match stored.
\<close>

lemma first_match_selected:
  "first_match g w r ps = (Inr (Some (p, left)), r')
     \<Longrightarrow> p \<in> set ps \<and> \<not> (truthy g \<and> Some (cz (p ! 0)) \<noteq> g)
         \<and> match (cz (p ! 1)) w r = (Inr (Some left), r')"
proof (induction ps)
  case Nil
  then show ?case by simp
next
  case (Cons q ps)
  obtain o1 s1 where m: "match (cz (q ! 1)) w r = (o1, s1)" by (cases "match (cz (q ! 1)) w r")
  show ?case
  proof (cases "truthy g \<and> Some (cz (q ! 0)) \<noteq> g")
    case True
    with Cons show ?thesis by simp
  next
    case False
    show ?thesis
    proof (cases o1)
      case (Inl e)
      with Cons.prems False m show ?thesis by simp
    next
      case (Inr found)
      show ?thesis
      proof (cases found)
        case None
        with m Inr have "s1 = r" by (auto dest: match_fail)
        with Cons False m Inr None show ?thesis by simp
      next
        case (Some l)
        with Cons.prems False m Inr show ?thesis by auto
      qed
    qed
  qed
qed

text \<open>
  A row \<open>b\<close> that stands behind a row \<open>a\<close> of the same gender, whose pattern matches
  whenever the pattern of \<open>b\<close> does, is never the one at which the loop stops.
\<close>

lemma first_match_shadowed:
  assumes "stands_before a b ps"
    and "a \<noteq> b"
    and "cz (a ! 0) = cz (b ! 0)"
    and "\<And>l s. match (cz (b ! 1)) w r = (Inr (Some l), s)
            \<Longrightarrow> \<exists>l' s'. match (cz (a ! 1)) w r = (Inr (Some l'), s')"
  shows "first_match g w r ps \<noteq> (Inr (Some (b, left)), r')"
  using assms(1)
proof (induction ps)
  case Nil
  then show ?case by simp
next
  case (Cons q ps)
  obtain o1 s1 where m: "match (cz (q ! 1)) w r = (o1, s1)" by (cases "match (cz (q ! 1)) w r")
  show ?case
  proof
    assume sel: "first_match g w r (q # ps) = (Inr (Some (b, left)), r')"
    from first_match_selected[OF sel]
    have b_ok: "\<not> (truthy g \<and> Some (cz (b ! 0)) \<noteq> g)"
      and b_m: "match (cz (b ! 1)) w r = (Inr (Some left), r')" by simp_all
    from assms(4)[OF b_m] obtain l' s' where a_m: "match (cz (a ! 1)) w r = (Inr (Some l'), s')"
      by blast
    show False
    proof (cases "q = a")
      case True
      with b_ok assms(3) have "\<not> (truthy g \<and> Some (cz (q ! 0)) \<noteq> g)" by simp
      with sel True a_m have "b = a" by (auto split: if_splits)
      with assms(2) show False by simp
    next
      case False
      with Cons.prems have qb: "q \<noteq> b" and rest: "stands_before a b ps"
        by (auto split: if_splits)
      have "first_match g w r ps = (Inr (Some (b, left)), r')"
      proof (cases "truthy g \<and> Some (cz (q ! 0)) \<noteq> g")
        case True
        with sel show ?thesis by simp
      next
        case skip: False
        show ?thesis
        proof (cases o1)
          case (Inl e)
          with sel skip m show ?thesis by simp
        next
          case (Inr found)
          show ?thesis
          proof (cases found)
            case None
            with m Inr have "s1 = r" by (auto dest: match_fail)
            with sel skip m Inr None show ?thesis by simp
          next
            case (Some l)
            with sel skip m Inr qb show ?thesis by simp
          qed
        qed
      qed
      with Cons.IH[OF rest] show False by simp
    qed
  qed
qed

lemma elems_match_two:
  assumes "elems_match [e1, e2] xs"
  shows "\<exists>x y. xs = [x, y] \<and> elem_matches e2 y"
proof (cases xs)
  case Nil
  with assms show ?thesis by simp
next
  case (Cons x ys)
  show ?thesis
  proof (cases ys)
    case Nil
    with assms Cons show ?thesis by (simp split: if_splits)
  next
    case tail: (Cons y zs)
    with assms Cons have "elem_matches e2 y" and "elems_match [] zs"
      by (simp_all split: if_splits)
    moreover from this(2) have "zs = []" by (cases zs) simp_all
    ultimately show ?thesis using Cons tail by simp
  qed
qed

lemma io_implies_o:
  assumes "match (cz (io_row ! 1)) w r = (Inr (Some l), s)"
  shows "\<exists>l' s'. match (cz (o_row ! 1)) w r = (Inr (Some l'), s')"
proof -
  have pio: "regex_parse Top (drop 1 (cz (io_row ! 1))) = Some [Lit 105, Lit 111]"
    by (simp add: io_row_def syntax_char_def char_maps del: of_char_Char)
  have po: "regex_parse Top (drop 1 (cz (o_row ! 1))) = Some [Lit 111]"
    by (simp add: o_row_def syntax_char_def char_maps del: of_char_Char)
  have dio: "take 1 (cz (io_row ! 1)) = [45]"
    by (simp add: io_row_def char_maps del: of_char_Char)
  have do: "take 1 (cz (o_row ! 1)) = [45]"
    by (simp add: o_row_def char_maps del: of_char_Char)
  from assms pio dio have ex: "regex_exec [Lit 105, Lit 111] w \<noteq> None"
    by (auto simp: match_def split: option.splits)
  then have len: "Suc (Suc 0) \<le> length w"
    and em: "elems_match [Lit 105, Lit 111] (drop (length w - Suc (Suc 0)) w)"
    by (auto simp: regex_exec_def split: if_splits)
  from elems_match_two[OF em] obtain x y
    where xy: "drop (length w - Suc (Suc 0)) w = [x, y]" and y: "elem_matches (Lit 111) y"
    by blast
  from len have "Suc 0 + (length w - Suc (Suc 0)) = length w - Suc 0" by arith
  then have "drop (length w - Suc 0) w = drop (Suc 0) (drop (length w - Suc (Suc 0)) w)"
    by (simp only: drop_drop)
  with xy have "drop (length w - Suc 0) w = [y]" by simp
  with y len have "regex_exec [Lit 111] w \<noteq> None"
    by (simp add: regex_exec_def)
  with po do show ?thesis
    by (auto simp: match_def split: option.splits)
qed

lemma rows_differ: "o_row \<noteq> io_row"
  by (simp add: o_row_def io_row_def)

lemma rows_gender: "cz (o_row ! 0) = cz (io_row ! 0)"
  by (simp add: o_row_def io_row_def)

lemma selected_is_stale_free:
  assumes "first_match g w r patterns = (Inr (Some (p, left)), r')"
  shows "stale_free p"
proof -
  from first_match_selected[OF assms] have "p \<in> set patterns" by simp
  with patterns_stale_free have "p = io_row \<or> stale_free p" by (simp add: list_all_iff)
  moreover have "p \<noteq> io_row"
  proof
    assume "p = io_row"
    with assms have "first_match g w r patterns = (Inr (Some (io_row, left)), r')" by simp
    moreover have "first_match g w r patterns \<noteq> (Inr (Some (io_row, left)), r')"
      by (rule first_match_shadowed[OF o_row_before_io_row rows_differ rows_gender])
         (rule io_implies_o)
    ultimately show False by simp
  qed
  ultimately show ?thesis by simp
qed

subsection \<open>One word, the loop over the words, and a call\<close>

lemma selected_length:
  assumes "first_match g w r patterns = (out, r')" and "length r \<le> 2"
  shows "length r' \<le> 2"
proof (cases "\<exists>p l. out = Inr (Some (p, l))")
  case True
  then obtain p l where out: "out = Inr (Some (p, l))" by blast
  with assms(1) have sel: "first_match g w r patterns = (Inr (Some (p, l)), r')" by simp
  from first_match_selected[OF sel] have m: "match (cz (p ! 1)) w r = (Inr (Some l), r')" by simp
  from selected_is_stale_free[OF sel] have "group_count (cz (p ! 1)) \<le> 2"
    by (auto simp: stale_free_def Let_def split: if_splits)
  with groups_of_count[OF m] have "length (groups_of (cz (p ! 1)) w) \<le> 2" by simp
  with match_stores[OF m] assms(2) show ?thesis by simp
next
  case False
  with assms(1) have "r' = r" by (auto dest: first_match_unmatched)
  with assms(2) show ?thesis by simp
qed

lemma selected_forms:
  assumes s1: "first_match g w r1 patterns = (Inr (Some (p, l)), s1)"
    and s2: "first_match g w r2 patterns = (Inr (Some (p, l)), s2)"
    and len: "length r1 \<le> 2" "length r2 \<le> 2"
    and k: "k \<in> set [2..<15]"
  shows "inflect_case a up exc s1 pre p k = inflect_case a up exc s2 pre p k"
proof -
  let ?gs = "groups_of (cz (p ! 1)) w"
  from first_match_selected[OF s1] have m1: "match (cz (p ! 1)) w r1 = (Inr (Some l), s1)" by simp
  from first_match_selected[OF s2] have m2: "match (cz (p ! 1)) w r2 = (Inr (Some l), s2)" by simp
  have sf: "stale_free p" using s1 by (rule selected_is_stale_free)
  have cnt: "length ?gs = group_count (cz (p ! 1))" using m1 by (rule groups_of_count)
  have chars: "\<forall>g\<in>set ?gs. \<exists>c. g = [c] \<and> canonicalize c \<in> set (class_chars (parsed (cz (p ! 1))))"
    using groups_of_chars[OF m1] by blast
  have "substitute s1 (cz (p ! k)) = substitute (rev ?gs) (cz (p ! k))"
    unfolding match_stores[OF m1] using sf len(1) cnt chars k by (rule substitute_stale_free)
  moreover have "substitute s2 (cz (p ! k)) = substitute (rev ?gs) (cz (p ! k))"
    unfolding match_stores[OF m2] using sf len(2) cnt chars k by (rule substitute_stale_free)
  ultimately have eq: "substitute s1 (cz (p ! k)) = substitute s2 (cz (p ! k))" by simp
  show ?thesis unfolding inflect_case_def eq by (rule refl)
qed

lemma choose_pattern_split:
  "choose_pattern g r w =
     (fst (choose_pattern g [] w),
      first_match (fst (fst (choose_pattern g [] w))) (snd (snd (fst (choose_pattern g [] w)))) r
        patterns)"
  by (simp add: choose_pattern_def Let_def)

text \<open>
  Whatever one or two entries the array holds, a round of the loop over the words has the
  same outcome and leaves at most two entries.
\<close>

lemma inflect_word_independent:
  assumes len: "length r1 \<le> 2" "length r2 \<le> 2"
  shows "fst (inflect_word a g r1 w) = fst (inflect_word a g r2 w)
         \<and> length (snd (inflect_word a g r1 w)) \<le> 2"
proof (cases w)
  case Nil
  with len show ?thesis by (simp add: inflect_word_def)
next
  case (Cons c cs)
  obtain g1 exc base where pre: "fst (choose_pattern g [] w) = (g1, exc, base)"
    by (metis prod_cases3)
  obtain o1 s1 where f1: "first_match g1 base r1 patterns = (o1, s1)"
    by (cases "first_match g1 base r1 patterns")
  obtain o2 s2 where f2: "first_match g1 base r2 patterns = (o2, s2)"
    by (cases "first_match g1 base r2 patterns")
  from f1 f2 first_match_fst[of g1 base r1 patterns r2] have o: "o2 = o1" by simp
  have c1: "choose_pattern g r1 w = ((g1, exc, base), (o1, s1))"
    using pre f1 by (subst choose_pattern_split) simp
  have c2: "choose_pattern g r2 w = ((g1, exc, base), (o1, s2))"
    using pre f2 o by (subst choose_pattern_split) simp
  have l1: "length s1 \<le> 2" using f1 len(1) by (rule selected_length)
  show ?thesis
  proof (cases o1)
    case (Inl e)
    with Cons c1 c2 l1 show ?thesis by (simp add: inflect_word_def Let_def)
  next
    case (Inr found)
    show ?thesis
    proof (cases found)
      case None
      with Inr Cons c1 c2 l1 show ?thesis by (simp add: inflect_word_def Let_def)
    next
      case (Some pl)
      obtain p l where pl: "pl = (p, l)" by (cases pl)
      from f1 Inr Some pl have sel1: "first_match g1 base r1 patterns = (Inr (Some (p, l)), s1)"
        by simp
      from f2 o Inr Some pl have sel2: "first_match g1 base r2 patterns = (Inr (Some (p, l)), s2)"
        by simp
      have same: "map (\<lambda>k. Some (inflect_case a up exc s1 pre p k)) [2..<15]
                = map (\<lambda>k. Some (inflect_case a up exc s2 pre p k)) [2..<15]" for up pre
        by (rule map_cong[OF refl]) (simp only: selected_forms[OF sel1 sel2 len])
      from Cons c1 c2 l1 Inr Some pl same show ?thesis
        by (simp add: inflect_word_def Let_def)
    qed
  qed
qed

lemma inflect_words_independent:
  "length r1 \<le> 2 \<Longrightarrow> length r2 \<le> 2 \<Longrightarrow>
     fst (inflect_words a g r1 acc ws) = fst (inflect_words a g r2 acc ws)
     \<and> length (snd (inflect_words a g r1 acc ws)) \<le> 2"
proof (induction ws arbitrary: g r1 r2 acc)
  case Nil
  then show ?case by simp
next
  case (Cons w ws)
  obtain o1 s1 where i1: "inflect_word a g r1 w = (o1, s1)" by (cases "inflect_word a g r1 w")
  obtain o2 s2 where i2: "inflect_word a g r2 w = (o2, s2)" by (cases "inflect_word a g r2 w")
  from inflect_word_independent[OF Cons.prems, of a g w] i1 i2
  have o: "o2 = o1" and l1: "length s1 \<le> 2" by simp_all
  from inflect_word_independent[OF Cons.prems(2) Cons.prems(1), of a g w] i2
  have l2: "length s2 \<le> 2" by simp
  show ?case
  proof (cases o1)
    case (Inl e)
    with i1 i2 o l1 show ?thesis by simp
  next
    case (Inr pg)
    obtain pushed g' where pg: "pg = (pushed, g')" by (cases pg)
    from Cons.IH[OF l1 l2, of g' "acc @ pushed"] i1 i2 o Inr pg show ?thesis by simp
  qed
qed

lemma inflect_independent:
  assumes "length r1 \<le> 2" "length r2 \<le> 2"
  shows "fst (inflect r1 text animate) = fst (inflect r2 text animate)
         \<and> length (snd (inflect r1 text animate)) \<le> 2"
proof -
  let ?ws = "rev (split_sp text)"
  obtain o1 s1 where i1: "inflect_words animate None r1 [] ?ws = (o1, s1)"
    by (cases "inflect_words animate None r1 [] ?ws")
  obtain o2 s2 where i2: "inflect_words animate None r2 [] ?ws = (o2, s2)"
    by (cases "inflect_words animate None r2 [] ?ws")
  from inflect_words_independent[OF assms, of animate None "[]" ?ws] i1 i2
  have "o2 = o1" and "length s1 \<le> 2" by simp_all
  with i1 i2 show ?thesis by (cases o1) (simp_all add: inflect_def)
qed

lemma after_calls_length_aux:
  "length r \<le> 2 \<Longrightarrow>
     length (foldl (\<lambda>replacements (text, animate). snd (inflect replacements text animate)) r calls) \<le> 2"
proof (induction calls arbitrary: r)
  case Nil
  then show ?case by simp
next
  case (Cons c calls)
  obtain t a where c: "c = (t, a)" by (cases c)
  from inflect_independent[OF Cons.prems Cons.prems, of t a]
  have "length (snd (inflect r t a)) \<le> 2" by simp
  from Cons.IH[OF this] c show ?case by simp
qed

lemma after_calls_length: "length (after_calls calls) \<le> 2"
  unfolding after_calls_def by (rule after_calls_length_aux) simp

text \<open>
  C9. A call on an instance that has processed any sequence of earlier calls, whatever
  their arguments and whether they returned or threw, has the outcome of the same call on
  a fresh instance: the same 14 forms, or the same exception.
\<close>

theorem inflect_is_self_contained:
  "fst (inflect (after_calls calls) text animate) = inflect_new text animate"
  unfolding inflect_new_def
  using inflect_independent[OF after_calls_length, of "[]" calls "text" animate] by simp

end
